theory Spec2Isabelle
  imports Main "HOL-Library.Word"
begin

section \<open>Package personname: the PN value codec\<close>

subsection \<open>Library functions of the Go runtime used by the package\<close>

text \<open>
  Go strings are byte sequences, as \<^typ>\<open>string\<close> is here. The two separators of the
  package, \<^verbatim>\<open>groupSep = "="\<close> and \<^verbatim>\<open>segmentSep = "^"\<close>, are one-byte strings, so
  they are kept as single characters.
\<close>

definition groupSep :: char where
  "groupSep = CHR ''=''"

definition segmentSep :: char where
  "segmentSep = CHR ''^''"

text \<open>
  \<^verbatim>\<open>strings.Split(s, sep)\<close> for a one-byte separator: the substrings between the
  occurrences of \<open>sep\<close>; a string without the separator (the empty one too) gives one
  substring.
\<close>

fun Split :: "string \<Rightarrow> char \<Rightarrow> string list" where
  "Split [] sep = [[]]"
| "Split (x # xs) sep =
     (if x = sep then [] # Split xs sep
      else (case Split xs sep of
              [] \<Rightarrow> [[x]]
            | y # ys \<Rightarrow> (x # y) # ys))"

text \<open>\<^verbatim>\<open>strings.HasSuffix(s, sep)\<close> for a one-byte suffix.\<close>

definition HasSuffix :: "string \<Rightarrow> char \<Rightarrow> bool" where
  "HasSuffix s sep = (case rev s of [] \<Rightarrow> False | c # _ \<Rightarrow> c = sep)"

text \<open>\<^verbatim>\<open>strings.Join(elems, sep)\<close>.\<close>

fun Join :: "string list \<Rightarrow> char \<Rightarrow> string" where
  "Join [] sep = []"
| "Join [x] sep = x"
| "Join (x # y # ys) sep = x @ sep # Join (y # ys) sep"

subsection \<open>Null separator levels and errors\<close>

text \<open>
  \<^verbatim>\<open>GroupTrailingNullLevel\<close> and \<^verbatim>\<open>InfoTrailingNullLevel\<close> are \<^verbatim>\<open>uint\<close> types whose
  named values are consecutive from 0; values above the last name exist and are what
  the validation functions reject. \<^verbatim>\<open>pnGroup\<close> is an \<^verbatim>\<open>int\<close> holding a group index.
\<close>

type_synonym GroupTrailingNullLevel = nat
type_synonym InfoTrailingNullLevel = nat
type_synonym pnGroup = nat

definition GroupNullNone :: GroupTrailingNullLevel where "GroupNullNone = 0"
definition GroupNullGiven :: GroupTrailingNullLevel where "GroupNullGiven = 1"
definition GroupNullMiddle :: GroupTrailingNullLevel where "GroupNullMiddle = 2"
definition GroupNullPrefix :: GroupTrailingNullLevel where "GroupNullPrefix = 3"
definition GroupNullAll :: GroupTrailingNullLevel where "GroupNullAll = 4"

definition InfoNullNone :: InfoTrailingNullLevel where "InfoNullNone = 0"
definition InfoNullIdeographic :: InfoTrailingNullLevel where "InfoNullIdeographic = 1"
definition InfoNullAll :: InfoTrailingNullLevel where "InfoNullAll = 2"

definition pnGroupAlphabetic :: pnGroup where "pnGroupAlphabetic = 0"
definition pnGroupIdeographic :: pnGroup where "pnGroupIdeographic = 1"
definition pnGroupPhonetic :: pnGroup where "pnGroupPhonetic = 2"

text \<open>\<^verbatim>\<open>pnGroup.String\<close>; \<open>None\<close> is the panic of the default branch.\<close>

definition pnGroup_String :: "pnGroup \<Rightarrow> string option" where
  "pnGroup_String grp =
     (if grp = pnGroupAlphabetic then Some ''Alphabetic''
      else if grp = pnGroupIdeographic then Some ''Ideographic''
      else if grp = pnGroupPhonetic then Some ''Phonetic''
      else None)"

text \<open>
  The errors of the package, by the constructor function that builds each:
  \<^verbatim>\<open>newErrTooManyGroups(count)\<close>, \<^verbatim>\<open>newErrTooManyGroupSegments(group, count)\<close> and
  \<^verbatim>\<open>newErrNullSepLevelInvalid(max, found)\<close>. Each carries its arguments.
\<close>

datatype pn_error =
    ErrTooManyGroups nat
  | ErrTooManyGroupSegments pnGroup nat
  | ErrNullSepLevelInvalid nat nat

definition validateGroupNullSepLevel :: "GroupTrailingNullLevel \<Rightarrow> pn_error option" where
  "validateGroupNullSepLevel level =
     (if level \<le> GroupNullAll then None
      else Some (ErrNullSepLevelInvalid GroupNullAll level))"

definition validateInfoNullSepLevel :: "InfoTrailingNullLevel \<Rightarrow> pn_error option" where
  "validateInfoNullSepLevel level =
     (if level \<le> InfoNullAll then None
      else Some (ErrNullSepLevelInvalid InfoNullAll level))"

subsection \<open>GroupInfo and Info\<close>

record GroupInfo =
  FamilyName :: string
  GivenName :: string
  MiddleName :: string
  NamePrefix :: string
  NameSuffix :: string
  TrailingNullLevel :: GroupTrailingNullLevel

text \<open>The field \<^verbatim>\<open>Info.TrailingNullLevel\<close> is \<open>Info_TrailingNullLevel\<close> here.\<close>

record Info =
  Alphabetic :: GroupInfo
  Ideographic :: GroupInfo
  Phonetic :: GroupInfo
  Info_TrailingNullLevel :: InfoTrailingNullLevel

text \<open>The zero values \<^verbatim>\<open>GroupInfo{}\<close> and \<^verbatim>\<open>Info{}\<close>.\<close>

definition GroupInfo_zero :: GroupInfo where
  "GroupInfo_zero =
     \<lparr>FamilyName = [], GivenName = [], MiddleName = [], NamePrefix = [],
      NameSuffix = [], TrailingNullLevel = 0\<rparr>"

definition Info_zero :: Info where
  "Info_zero =
     \<lparr>Alphabetic = GroupInfo_zero, Ideographic = GroupInfo_zero,
      Phonetic = GroupInfo_zero, Info_TrailingNullLevel = 0\<rparr>"

text \<open>
  Modelled from the spec: \<^verbatim>\<open>renderWithSeps\<close>, the separator renderer that both
  \<^verbatim>\<open>DCM\<close> methods call, is not among the source files. The spec (4.1): it joins the
  segments with the separator; trailing empty segments are dropped, except that the
  separators required to reach \<open>nullLevel\<close> are always emitted; level 0 forces no
  trailing separator and the highest level forces every separator up to the last
  segment boundary. So the segments up to the last non-empty one are kept, and at
  least the first \<open>nullLevel + 1\<close> of them.
\<close>

definition renderWithSeps :: "string list \<Rightarrow> char \<Rightarrow> nat \<Rightarrow> string" where
  "renderWithSeps segments sep nullSepLevel =
     (let lastNonEmpty = length (dropWhile (\<lambda>s. s = []) (rev segments))
      in Join (take (max (Suc nullSepLevel) lastNonEmpty) segments) sep)"

text \<open>\<^verbatim>\<open>GroupInfo.DCM\<close>; \<open>Inl\<close> is the panic on an invalid level.\<close>

definition GroupInfo_DCM :: "GroupInfo \<Rightarrow> pn_error + string" where
  "GroupInfo_DCM grp =
     (case validateGroupNullSepLevel (TrailingNullLevel grp) of
        Some err \<Rightarrow> Inl err
      | None \<Rightarrow>
          Inr (renderWithSeps
                 [FamilyName grp, GivenName grp, MiddleName grp,
                  NamePrefix grp, NameSuffix grp]
                 segmentSep (TrailingNullLevel grp)))"

definition GroupInfo_IsEmpty :: "GroupInfo \<Rightarrow> bool" where
  "GroupInfo_IsEmpty grp =
     (FamilyName grp = [] \<and> GivenName grp = [] \<and> MiddleName grp = [] \<and>
      NamePrefix grp = [] \<and> NameSuffix grp = [])"

text \<open>The \<^verbatim>\<open>switch i\<close> of the segment loop: indices above 4 assign nothing.\<close>

definition assignSegment :: "nat \<Rightarrow> string \<Rightarrow> GroupInfo \<Rightarrow> GroupInfo" where
  "assignSegment i groupValue groupInfo =
     (if i = 0 then groupInfo\<lparr>FamilyName := groupValue\<rparr>
      else if i = 1 then groupInfo\<lparr>GivenName := groupValue\<rparr>
      else if i = 2 then groupInfo\<lparr>MiddleName := groupValue\<rparr>
      else if i = 3 then groupInfo\<lparr>NamePrefix := groupValue\<rparr>
      else if i = 4 then groupInfo\<lparr>NameSuffix := groupValue\<rparr>
      else groupInfo)"

text \<open>
  The loop \<^verbatim>\<open>for i, groupValue := range segments\<close> of \<^verbatim>\<open>groupFromValueString\<close>,
  from index \<open>i\<close> on, threading \<open>groupInfo\<close> and \<open>nullSepLevel\<close>.
\<close>

fun segmentLoop ::
  "nat \<Rightarrow> string list \<Rightarrow> GroupInfo \<Rightarrow> GroupTrailingNullLevel
     \<Rightarrow> GroupInfo \<times> GroupTrailingNullLevel" where
  "segmentLoop i [] groupInfo nullSepLevel = (groupInfo, nullSepLevel)"
| "segmentLoop i (groupValue # rest) groupInfo nullSepLevel =
     segmentLoop (Suc i) rest (assignSegment i groupValue groupInfo)
       (if groupValue = [] then i else GroupNullNone)"

definition groupFromValueString :: "string \<Rightarrow> pnGroup \<Rightarrow> pn_error + GroupInfo" where
  "groupFromValueString groupString grp =
     (let segments = Split groupString segmentSep;
          segmentCount = length segments
      in if segmentCount > 5
         then Inl (ErrTooManyGroupSegments grp (length segments))
         else (case segmentLoop 0 segments GroupInfo_zero GroupNullNone of
                 (groupInfo, nullSepLevel) \<Rightarrow>
                   if HasSuffix groupString segmentSep
                   then Inr (groupInfo\<lparr>TrailingNullLevel := nullSepLevel\<rparr>)
                   else Inr groupInfo))"

definition WithFormat ::
  "Info \<Rightarrow> InfoTrailingNullLevel \<Rightarrow> GroupTrailingNullLevel \<Rightarrow> GroupTrailingNullLevel
     \<Rightarrow> GroupTrailingNullLevel \<Rightarrow> Info" where
  "WithFormat info infoNullSepLevel alphabeticNullSepLevel ideographicNullSepLevel
     phoneticNullSepLevel =
     info\<lparr>Info_TrailingNullLevel := infoNullSepLevel,
          Alphabetic := (Alphabetic info)\<lparr>TrailingNullLevel := alphabeticNullSepLevel\<rparr>,
          Ideographic := (Ideographic info)\<lparr>TrailingNullLevel := ideographicNullSepLevel\<rparr>,
          Phonetic := (Phonetic info)\<lparr>TrailingNullLevel := phoneticNullSepLevel\<rparr>\<rparr>"

definition WithTrailingNulls :: "Info \<Rightarrow> Info" where
  "WithTrailingNulls info = WithFormat info InfoNullAll GroupNullAll GroupNullAll GroupNullAll"

definition WithoutTrailingNulls :: "Info \<Rightarrow> Info" where
  "WithoutTrailingNulls info =
     WithFormat info InfoNullNone GroupNullNone GroupNullNone GroupNullNone"

text \<open>
  \<^verbatim>\<open>Info.DCM\<close>. The overall level is validated first; then the three groups are
  rendered in order, and a panic of a group's \<^verbatim>\<open>DCM\<close> is the panic of the whole.
\<close>

definition Info_DCM :: "Info \<Rightarrow> pn_error + string" where
  "Info_DCM info =
     (case validateInfoNullSepLevel (Info_TrailingNullLevel info) of
        Some err \<Rightarrow> Inl err
      | None \<Rightarrow>
          (case GroupInfo_DCM (Alphabetic info) of
             Inl err \<Rightarrow> Inl err
           | Inr a \<Rightarrow>
               (case GroupInfo_DCM (Ideographic info) of
                  Inl err \<Rightarrow> Inl err
                | Inr i \<Rightarrow>
                    (case GroupInfo_DCM (Phonetic info) of
                       Inl err \<Rightarrow> Inl err
                     | Inr p \<Rightarrow>
                         Inr (renderWithSeps [a, i, p] groupSep
                                (Info_TrailingNullLevel info))))))"

definition Info_IsEmpty :: "Info \<Rightarrow> bool" where
  "Info_IsEmpty info =
     (GroupInfo_IsEmpty (Alphabetic info) \<and> GroupInfo_IsEmpty (Ideographic info) \<and>
      GroupInfo_IsEmpty (Phonetic info))"

text \<open>The \<^verbatim>\<open>switch group\<close> of \<^verbatim>\<open>Parse\<close>.\<close>

definition assignGroup :: "pnGroup \<Rightarrow> GroupInfo \<Rightarrow> Info \<Rightarrow> Info" where
  "assignGroup grp groupInfo info =
     (if grp = pnGroupAlphabetic then info\<lparr>Alphabetic := groupInfo\<rparr>
      else if grp = pnGroupIdeographic then info\<lparr>Ideographic := groupInfo\<rparr>
      else if grp = pnGroupPhonetic then info\<lparr>Phonetic := groupInfo\<rparr>
      else info)"

text \<open>
  The loop \<^verbatim>\<open>for i, groupString := range groups\<close> of \<^verbatim>\<open>Parse\<close>, from index \<open>i\<close>
  on; an error of \<^verbatim>\<open>groupFromValueString\<close> returns at once.
\<close>

fun groupLoop ::
  "nat \<Rightarrow> string list \<Rightarrow> Info \<Rightarrow> InfoTrailingNullLevel
     \<Rightarrow> pn_error + (Info \<times> InfoTrailingNullLevel)" where
  "groupLoop i [] info nullSepLevel = Inr (info, nullSepLevel)"
| "groupLoop i (groupString # rest) info nullSepLevel =
     (case groupFromValueString groupString i of
        Inl err \<Rightarrow> Inl err
      | Inr groupInfo \<Rightarrow>
          groupLoop (Suc i) rest (assignGroup i groupInfo info)
            (if groupString = [] then i else InfoNullNone))"

definition Parse :: "string \<Rightarrow> pn_error + Info" where
  "Parse valueString =
     (let groups = Split valueString groupSep
      in if length groups > 3 then Inl (ErrTooManyGroups (length groups))
         else (case groupLoop 0 groups Info_zero InfoNullNone of
                 Inl err \<Rightarrow> Inl err
               | Inr (info, nullSepLevel) \<Rightarrow>
                   Inr (info\<lparr>Info_TrailingNullLevel := nullSepLevel\<rparr>)))"

text \<open>The three group levels of an \<open>Info\<close> are within range.\<close>

definition groupLevelsValid :: "Info \<Rightarrow> bool" where
  "groupLevelsValid info =
     (TrailingNullLevel (Alphabetic info) \<le> GroupNullAll \<and>
      TrailingNullLevel (Ideographic info) \<le> GroupNullAll \<and>
      TrailingNullLevel (Phonetic info) \<le> GroupNullAll)"

section \<open>Package dcmtime: the DA value codec\<close>

text \<open>
  Modelled from the spec: \<^verbatim>\<open>ParseDate\<close>, \<^verbatim>\<open>Date.DCM\<close> and the types \<^verbatim>\<open>Date\<close> and
  \<^verbatim>\<open>PrecisionLevel\<close> of package dcmtime are not among the source files; only their
  tests (\<^verbatim>\<open>date_test.go\<close>) are. The spec (3, 4.2): a Date is a calendar value with a
  precision; \<open>parseDate\<close> accepts the strict forms YYYYMMDD, YYYYMM and YYYY and, when
  the legacy flag is set, the dot-delimited forms YYYY.MM.DD, YYYY.MM and YYYY; any
  other digit count, a character that is not a digit, or a legacy form without the
  flag is the parse error, which carries the raw text. The precision is the number of
  components present; an absent month or day is 1 in the calendar value. Serializing
  emits the digit groups up to the precision and never a dot, so that a value parsed
  from a legacy form serializes to the strict form of the same precision.

  The names of the precision levels are those of the tests, where eight digits parse
  to \<^verbatim>\<open>PrecisionFull\<close> and where \<^verbatim>\<open>PrecisionDay\<close> and \<^verbatim>\<open>PrecisionFull\<close> serialize alike
  (\<^verbatim>\<open>TestDate_DCM\<close>). The spec does not say what happens to a month or day outside the
  calendar's range; the model keeps the numbers as they were read, and the properties
  below are stated for texts that denote a date of the calendar.
\<close>

datatype PrecisionLevel = PrecisionYear | PrecisionMonth | PrecisionDay | PrecisionFull

text \<open>The calendar fields of the \<^verbatim>\<open>time.Time\<close> held by a Date.\<close>

record CalendarValue =
  Year :: nat
  Month :: nat
  Day :: nat

record Date =
  Time :: CalendarValue
  Precision :: PrecisionLevel

text \<open>The parse errors of the package, each carrying the raw text.\<close>

datatype dcmtime_error = ErrParseDA string | ErrParseTM string | ErrParseDT string

definition isDigit :: "char \<Rightarrow> bool" where
  "isDigit c = (48 \<le> (of_char c :: nat) \<and> (of_char c :: nat) \<le> 57)"

definition allDigits :: "string \<Rightarrow> bool" where
  "allDigits s = list_all isDigit s"

definition digitValue :: "char \<Rightarrow> nat" where
  "digitValue c = of_char c - 48"

text \<open>The number a run of decimal digits denotes.\<close>

definition atoi :: "string \<Rightarrow> nat" where
  "atoi s = foldl (\<lambda>a c. 10 * a + digitValue c) 0 s"

text \<open>
  A digit group of a fixed width: the decimal digits of \<open>n\<close>, zero-padded on the left
  to \<open>w\<close> digits (the low \<open>w\<close> digits, should \<open>n\<close> have more).
\<close>

fun digitGroup :: "nat \<Rightarrow> nat \<Rightarrow> string" where
  "digitGroup 0 n = []"
| "digitGroup (Suc w) n = digitGroup w (n div 10) @ [char_of (48 + n mod 10)]"

text \<open>
  The Date that the digits of the year, of the month (none when absent) and of the
  day (none when absent) denote.
\<close>

definition dateOf :: "string \<Rightarrow> string \<Rightarrow> string \<Rightarrow> Date" where
  "dateOf y m d =
     \<lparr>Time = \<lparr>Year = atoi y,
               Month = (if m = [] then 1 else atoi m),
               Day = (if d = [] then 1 else atoi d)\<rparr>,
      Precision = (if m = [] then PrecisionYear
                   else if d = [] then PrecisionMonth else PrecisionFull)\<rparr>"

text \<open>The strict forms, by their length.\<close>

definition isStrictDate :: "string \<Rightarrow> bool" where
  "isStrictDate s = (allDigits s \<and> (length s = 8 \<or> length s = 6 \<or> length s = 4))"

text \<open>The dotted legacy forms \<open>YYYY.MM.DD\<close> and \<open>YYYY.MM\<close>.\<close>

definition isNemaFull :: "string \<Rightarrow> bool" where
  "isNemaFull s =
     (length s = 10 \<and> allDigits (take 4 s) \<and> s ! 4 = CHR ''.'' \<and>
      allDigits (take 2 (drop 5 s)) \<and> s ! 7 = CHR ''.'' \<and> allDigits (drop 8 s))"

definition isNemaMonth :: "string \<Rightarrow> bool" where
  "isNemaMonth s =
     (length s = 7 \<and> allDigits (take 4 s) \<and> s ! 4 = CHR ''.'' \<and> allDigits (drop 5 s))"

definition ParseDate :: "string \<Rightarrow> bool \<Rightarrow> dcmtime_error + Date" where
  "ParseDate daString allowNema =
     (if isStrictDate daString \<and> length daString = 8
      then Inr (dateOf (take 4 daString) (take 2 (drop 4 daString)) (drop 6 daString))
      else if isStrictDate daString \<and> length daString = 6
      then Inr (dateOf (take 4 daString) (drop 4 daString) [])
      else if isStrictDate daString
      then Inr (dateOf daString [] [])
      else if allowNema \<and> isNemaFull daString
      then Inr (dateOf (take 4 daString) (take 2 (drop 5 daString)) (drop 8 daString))
      else if allowNema \<and> isNemaMonth daString
      then Inr (dateOf (take 4 daString) (drop 5 daString) [])
      else Inl (ErrParseDA daString))"

definition Date_DCM :: "Date \<Rightarrow> string" where
  "Date_DCM da =
     (case Precision da of
        PrecisionYear \<Rightarrow> digitGroup 4 (Year (Time da))
      | PrecisionMonth \<Rightarrow> digitGroup 4 (Year (Time da)) @ digitGroup 2 (Month (Time da))
      | PrecisionDay \<Rightarrow>
          digitGroup 4 (Year (Time da)) @ digitGroup 2 (Month (Time da)) @
          digitGroup 2 (Day (Time da))
      | PrecisionFull \<Rightarrow>
          digitGroup 4 (Year (Time da)) @ digitGroup 2 (Month (Time da)) @
          digitGroup 2 (Day (Time da)))"

text \<open>
  A valid strict date text: a strict form whose month, when present, is a month of the
  year and whose day, when present, is a day of that month in the Gregorian calendar.
\<close>

definition isLeapYear :: "nat \<Rightarrow> bool" where
  "isLeapYear y = (y mod 4 = 0 \<and> (y mod 100 \<noteq> 0 \<or> y mod 400 = 0))"

definition daysIn :: "nat \<Rightarrow> nat \<Rightarrow> nat" where
  "daysIn y m =
     (if m = 2 then (if isLeapYear y then 29 else 28)
      else if m = 4 \<or> m = 6 \<or> m = 9 \<or> m = 11 then 30
      else 31)"

definition validCalendar :: "CalendarValue \<Rightarrow> bool" where
  "validCalendar t =
     (1 \<le> Month t \<and> Month t \<le> 12 \<and> 1 \<le> Day t \<and> Day t \<le> daysIn (Year t) (Month t))"

definition isValidStrictDate :: "string \<Rightarrow> bool" where
  "isValidStrictDate s =
     (isStrictDate s \<and>
      validCalendar (Time (dateOf (take 4 s) (take 2 (drop 4 s)) (drop 6 s))))"

section \<open>Package dicom: the element value decoder\<close>

subsection \<open>Elements and what the decoder takes from other packages\<close>

text \<open>\<^verbatim>\<open>tag.Tag\<close>: a group and an element number, 16 bits each.\<close>

record Tag =
  Group :: "16 word"
  Element :: "16 word"

text \<open>
  \<^verbatim>\<open>tag.Info\<close>, the dictionary entry of a tag. The decoder reads the raw VM string
  \<^verbatim>\<open>VM\<close> and the parsed \<^verbatim>\<open>VMInfo\<close>, whose type is not among the source files and is
  the parameter \<open>'vm\<close>.
\<close>

record 'vm tag_Info =
  Info_Tag :: Tag
  Info_Name :: string
  Info_VR :: string
  VM :: string
  VMInfo :: 'vm

text \<open>
  The payload of an element, as \<^verbatim>\<open>Value.GetValue()\<close> returns it: the decoder asserts
  the types \<^verbatim>\<open>[]byte\<close>, \<^verbatim>\<open>[]string\<close> and \<^verbatim>\<open>[]int\<close>; every other dynamic type is
  \<open>OtherValue\<close>, with a number that tells the types apart.
\<close>

datatype Value =
    Bytes "8 word list"
  | Strings "string list"
  | Ints "int list"
  | OtherValue nat

record Element =
  Tag :: Tag
  RawValueRepresentation :: string
  Value :: Value

text \<open>What \<^verbatim>\<open>reflect.TypeOf\<close> reports in the error messages.\<close>

datatype go_type =
    T_bytes
  | T_strings
  | T_ints
  | T_other nat
  | T_personname_Info

fun TypeOf :: "Value \<Rightarrow> go_type" where
  "TypeOf (Bytes _) = T_bytes"
| "TypeOf (Strings _) = T_strings"
| "TypeOf (Ints _) = T_ints"
| "TypeOf (OtherValue k) = T_other k"

text \<open>
  Modelled from the spec: the constants of package \<^verbatim>\<open>vrraw\<close> and \<^verbatim>\<open>tag.IsPrivate\<close> are
  not among the source files. The VR codes are the two-letter codes of the format for
  names, dates, times and datetimes; a group is private when its number is odd
  (spec, 3).
\<close>

definition vrraw_PersonName :: string where "vrraw_PersonName = ''PN''"
definition vrraw_Date :: string where "vrraw_Date = ''DA''"
definition vrraw_Time :: string where "vrraw_Time = ''TM''"
definition vrraw_DateTime :: string where "vrraw_DateTime = ''DT''"

definition IsPrivate :: "16 word \<Rightarrow> bool" where
  "IsPrivate grp = odd (unat grp)"

text \<open>
  The functions of other packages that the decoder calls and that are not among the
  source files are parameters: the dictionary lookup \<^verbatim>\<open>tag.Find\<close> (\<open>None\<close> when it
  returns an error), \<^verbatim>\<open>VMInfo.IsSingleValue\<close>, and the three parsers of package
  dcmtime, each returning its error or its value.
\<close>

record ('vm, 'da, 'tm, 'dt) deps =
  tag_Find :: "Tag \<Rightarrow> 'vm tag_Info option"
  IsSingleValue :: "'vm \<Rightarrow> bool"
  dcmtime_ParseDate :: "string \<Rightarrow> bool \<Rightarrow> dcmtime_error + 'da"
  dcmtime_ParseTime :: "string \<Rightarrow> dcmtime_error + 'tm"
  dcmtime_ParseDatetime :: "string \<Rightarrow> dcmtime_error + 'dt"

subsection \<open>Errors\<close>

text \<open>
  The errors of the decoder, by the function or format string that builds each:
  \<^verbatim>\<open>newErrConvertValue(expected, actual)\<close>, \<^verbatim>\<open>newErrMultipleValuesFound(valueCount)\<close>,
  \<^verbatim>\<open>newErrSpecNotSingle(vmRaw)\<close>, \<^verbatim>\<open>newErrBadVR(targetValue, expectedVR, foundVR)\<close>,
  and the three wrappers
  \<^verbatim>\<open>"error converting string value %v to PersonName: %w"\<close>,
  \<^verbatim>\<open>"error getting value as strings for date conversion: %w"\<close> and
  \<^verbatim>\<open>"error parsing string value %v: %w"\<close>. \<open>IndexOutOfRange\<close> is the runtime's
  panic on the index \<^verbatim>\<open>[0]\<close> of an empty slice.
\<close>

datatype decode_error =
    ErrConvertTypeValue go_type go_type
  | ErrMultipleValuesFound nat
  | ErrDicomSpecNotSingle string
  | ErrWrongValueRepresentation go_type string string
  | ErrConvertingToPersonName nat pn_error
  | ErrGettingStrings decode_error
  | ErrParsingStringValue nat dcmtime_error
  | IndexOutOfRange

subsection \<open>ElementValueDecoder\<close>

text \<open>
  \<^verbatim>\<open>checkSingleValue\<close>; \<open>None\<close> is the \<^verbatim>\<open>nil\<close> error. The decoder holds a pointer to
  its element and nothing else, so the element stands for the decoder.
\<close>

definition checkSingleValue ::
  "('vm, 'da, 'tm, 'dt) deps \<Rightarrow> Element \<Rightarrow> nat \<Rightarrow> bool \<Rightarrow> decode_error option" where
  "checkSingleValue deps element valueCount checkSpec =
     (let elementTag = Tag element
      in if valueCount \<noteq> 1 then Some (ErrMultipleValuesFound valueCount)
         else if \<not> checkSpec \<or> IsPrivate (Group elementTag) then None
         else (case tag_Find deps elementTag of
                 None \<Rightarrow> None
               | Some info \<Rightarrow>
                   if \<not> IsSingleValue deps (VMInfo info)
                   then Some (ErrDicomSpecNotSingle (VM info))
                   else None))"

definition checkVR :: "Element \<Rightarrow> string \<Rightarrow> bool" where
  "checkVR element expectedVR = (expectedVR = RawValueRepresentation element)"

definition ToBytes :: "Element \<Rightarrow> decode_error + 8 word list" where
  "ToBytes element =
     (case Value element of
        Bytes bytes \<Rightarrow> Inr bytes
      | val \<Rightarrow> Inl (ErrConvertTypeValue T_bytes (TypeOf val)))"

definition ToStrings :: "Element \<Rightarrow> decode_error + string list" where
  "ToStrings element =
     (case Value element of
        Strings strings \<Rightarrow> Inr strings
      | val \<Rightarrow> Inl (ErrConvertTypeValue T_strings (TypeOf val)))"

text \<open>The index \<^verbatim>\<open>[0]\<close> of the single-value methods.\<close>

definition first :: "'a list \<Rightarrow> decode_error + 'a" where
  "first xs = (case xs of [] \<Rightarrow> Inl IndexOutOfRange | x # _ \<Rightarrow> Inr x)"

definition ToString ::
  "('vm, 'da, 'tm, 'dt) deps \<Rightarrow> Element \<Rightarrow> bool \<Rightarrow> decode_error + string" where
  "ToString deps element checkSpec =
     (case ToStrings element of
        Inl err \<Rightarrow> Inl err
      | Inr strings \<Rightarrow>
          (case checkSingleValue deps element (length strings) checkSpec of
             Some err \<Rightarrow> Inl err
           | None \<Rightarrow> first strings))"

definition ToInts :: "Element \<Rightarrow> decode_error + int list" where
  "ToInts element =
     (case Value element of
        Ints ints \<Rightarrow> Inr ints
      | val \<Rightarrow> Inl (ErrConvertTypeValue T_ints (TypeOf val)))"

definition ToInt ::
  "('vm, 'da, 'tm, 'dt) deps \<Rightarrow> Element \<Rightarrow> bool \<Rightarrow> decode_error + int" where
  "ToInt deps element checkSpec =
     (case ToInts element of
        Inl err \<Rightarrow> Inl err
      | Inr ints \<Rightarrow>
          (case checkSingleValue deps element (length ints) checkSpec of
             Some err \<Rightarrow> Inl err
           | None \<Rightarrow> first ints))"

text \<open>
  The loops \<^verbatim>\<open>for i, thisString := range strings\<close> of the plural methods, from index
  \<open>i\<close> on: each parses the strings in order and returns at the first error, wrapped
  with the index.
\<close>

fun personNamesLoop :: "nat \<Rightarrow> string list \<Rightarrow> decode_error + Info list" where
  "personNamesLoop i [] = Inr []"
| "personNamesLoop i (thisString # rest) =
     (case Parse thisString of
        Inl err \<Rightarrow> Inl (ErrConvertingToPersonName i err)
      | Inr thisPn \<Rightarrow>
          (case personNamesLoop (Suc i) rest of
             Inl err \<Rightarrow> Inl err
           | Inr personNames \<Rightarrow> Inr (thisPn # personNames)))"

fun parseLoop ::
  "(string \<Rightarrow> dcmtime_error + 'a) \<Rightarrow> nat \<Rightarrow> string list \<Rightarrow> decode_error + 'a list" where
  "parseLoop parse i [] = Inr []"
| "parseLoop parse i (thisString # rest) =
     (case parse thisString of
        Inl err \<Rightarrow> Inl (ErrParsingStringValue i err)
      | Inr thisValue \<Rightarrow>
          (case parseLoop parse (Suc i) rest of
             Inl err \<Rightarrow> Inl err
           | Inr vals \<Rightarrow> Inr (thisValue # vals)))"

text \<open>
  \<^verbatim>\<open>ToPersonNames\<close>. On a parse error the source returns the partly filled slice
  together with the error; every caller in the package drops the slice, so only the
  error is kept here.
\<close>

definition ToPersonNames :: "Element \<Rightarrow> decode_error + Info list" where
  "ToPersonNames element =
     (if \<not> checkVR element vrraw_PersonName
      then Inl (ErrWrongValueRepresentation T_personname_Info vrraw_PersonName
                  (RawValueRepresentation element))
      else (case ToStrings element of
              Inl err \<Rightarrow> Inl err
            | Inr strings \<Rightarrow> personNamesLoop 0 strings))"

definition ToPersonName ::
  "('vm, 'da, 'tm, 'dt) deps \<Rightarrow> Element \<Rightarrow> bool \<Rightarrow> decode_error + Info" where
  "ToPersonName deps element checkSpec =
     (case ToPersonNames element of
        Inl err \<Rightarrow> Inl err
      | Inr names \<Rightarrow>
          (case checkSingleValue deps element (length names) checkSpec of
             Some err \<Rightarrow> Inl err
           | None \<Rightarrow> first names))"

text \<open>
  \<^verbatim>\<open>ToDates\<close>. Its VR error is built, as the source builds it, from
  \<^verbatim>\<open>personname.Info{}\<close> and \<^verbatim>\<open>vrraw.PersonName\<close>.
\<close>

definition ToDates ::
  "('vm, 'da, 'tm, 'dt) deps \<Rightarrow> Element \<Rightarrow> bool \<Rightarrow> decode_error + 'da list" where
  "ToDates deps element allowNema =
     (if \<not> checkVR element vrraw_Date
      then Inl (ErrWrongValueRepresentation T_personname_Info vrraw_PersonName
                  (RawValueRepresentation element))
      else (case ToStrings element of
              Inl err \<Rightarrow> Inl (ErrGettingStrings err)
            | Inr dateStrings \<Rightarrow>
                parseLoop (\<lambda>s. dcmtime_ParseDate deps s allowNema) 0 dateStrings))"

definition ToDate ::
  "('vm, 'da, 'tm, 'dt) deps \<Rightarrow> Element \<Rightarrow> bool \<Rightarrow> bool \<Rightarrow> decode_error + 'da" where
  "ToDate deps element checkSpec allowNema =
     (case ToDates deps element allowNema of
        Inl err \<Rightarrow> Inl err
      | Inr dates \<Rightarrow>
          (case checkSingleValue deps element (length dates) checkSpec of
             Some err \<Rightarrow> Inl err
           | None \<Rightarrow> first dates))"

definition ToTimes ::
  "('vm, 'da, 'tm, 'dt) deps \<Rightarrow> Element \<Rightarrow> decode_error + 'tm list" where
  "ToTimes deps element =
     (if \<not> checkVR element vrraw_Time
      then Inl (ErrWrongValueRepresentation T_personname_Info vrraw_Time
                  (RawValueRepresentation element))
      else (case ToStrings element of
              Inl err \<Rightarrow> Inl (ErrGettingStrings err)
            | Inr timeStrings \<Rightarrow> parseLoop (dcmtime_ParseTime deps) 0 timeStrings))"

definition ToTime ::
  "('vm, 'da, 'tm, 'dt) deps \<Rightarrow> Element \<Rightarrow> bool \<Rightarrow> decode_error + 'tm" where
  "ToTime deps element checkSpec =
     (case ToTimes deps element of
        Inl err \<Rightarrow> Inl err
      | Inr timeVals \<Rightarrow>
          (case checkSingleValue deps element (length timeVals) checkSpec of
             Some err \<Rightarrow> Inl err
           | None \<Rightarrow> first timeVals))"

definition ToDatetimes ::
  "('vm, 'da, 'tm, 'dt) deps \<Rightarrow> Element \<Rightarrow> decode_error + 'dt list" where
  "ToDatetimes deps element =
     (if \<not> checkVR element vrraw_DateTime
      then Inl (ErrWrongValueRepresentation T_personname_Info vrraw_DateTime
                  (RawValueRepresentation element))
      else (case ToStrings element of
              Inl err \<Rightarrow> Inl (ErrGettingStrings err)
            | Inr timeStrings \<Rightarrow> parseLoop (dcmtime_ParseDatetime deps) 0 timeStrings))"

definition ToDatetime ::
  "('vm, 'da, 'tm, 'dt) deps \<Rightarrow> Element \<Rightarrow> bool \<Rightarrow> decode_error + 'dt" where
  "ToDatetime deps element checkSpec =
     (case ToDatetimes deps element of
        Inl err \<Rightarrow> Inl err
      | Inr datetimes \<Rightarrow>
          (case checkSingleValue deps element (length datetimes) checkSpec of
             Some err \<Rightarrow> Inl err
           | None \<Rightarrow> first datetimes))"

subsection \<open>ElementMustValueDecoder\<close>

text \<open>
  What a method of the facade does: it returns a value or panics with an error.
  \<^verbatim>\<open>Must()\<close> only wraps the decoder, so the element stands for the facade too.
\<close>

datatype 'a outcome = Returns 'a | Panics decode_error

definition Must_ToBytes :: "Element \<Rightarrow> 8 word list outcome" where
  "Must_ToBytes element =
     (case ToBytes element of Inl err \<Rightarrow> Panics err | Inr bin \<Rightarrow> Returns bin)"

definition Must_ToStrings :: "Element \<Rightarrow> string list outcome" where
  "Must_ToStrings element =
     (case ToStrings element of Inl err \<Rightarrow> Panics err | Inr strings \<Rightarrow> Returns strings)"

definition Must_ToString ::
  "('vm, 'da, 'tm, 'dt) deps \<Rightarrow> Element \<Rightarrow> bool \<Rightarrow> string outcome" where
  "Must_ToString deps element checkSpec =
     (case ToString deps element checkSpec of
        Inl err \<Rightarrow> Panics err
      | Inr stringVal \<Rightarrow> Returns stringVal)"

definition Must_ToInts :: "Element \<Rightarrow> int list outcome" where
  "Must_ToInts element =
     (case ToInts element of Inl err \<Rightarrow> Panics err | Inr intsVal \<Rightarrow> Returns intsVal)"

definition Must_ToInt ::
  "('vm, 'da, 'tm, 'dt) deps \<Rightarrow> Element \<Rightarrow> bool \<Rightarrow> int outcome" where
  "Must_ToInt deps element checkSpec =
     (case ToInt deps element checkSpec of
        Inl err \<Rightarrow> Panics err
      | Inr intVal \<Rightarrow> Returns intVal)"

definition Must_ToPersonNames :: "Element \<Rightarrow> Info list outcome" where
  "Must_ToPersonNames element =
     (case ToPersonNames element of Inl err \<Rightarrow> Panics err | Inr names \<Rightarrow> Returns names)"

definition Must_ToPersonName ::
  "('vm, 'da, 'tm, 'dt) deps \<Rightarrow> Element \<Rightarrow> bool \<Rightarrow> Info outcome" where
  "Must_ToPersonName deps element checkSpec =
     (case ToPersonName deps element checkSpec of
        Inl err \<Rightarrow> Panics err
      | Inr name \<Rightarrow> Returns name)"

definition Must_ToDates ::
  "('vm, 'da, 'tm, 'dt) deps \<Rightarrow> Element \<Rightarrow> bool \<Rightarrow> 'da list outcome" where
  "Must_ToDates deps element allowNema =
     (case ToDates deps element allowNema of
        Inl err \<Rightarrow> Panics err
      | Inr names \<Rightarrow> Returns names)"

definition Must_ToDate ::
  "('vm, 'da, 'tm, 'dt) deps \<Rightarrow> Element \<Rightarrow> bool \<Rightarrow> bool \<Rightarrow> 'da outcome" where
  "Must_ToDate deps element checkSpec allowNema =
     (case ToDate deps element checkSpec allowNema of
        Inl err \<Rightarrow> Panics err
      | Inr date \<Rightarrow> Returns date)"

definition Must_ToTimes ::
  "('vm, 'da, 'tm, 'dt) deps \<Rightarrow> Element \<Rightarrow> 'tm list outcome" where
  "Must_ToTimes deps element =
     (case ToTimes deps element of Inl err \<Rightarrow> Panics err | Inr timeVals \<Rightarrow> Returns timeVals)"

definition Must_ToTime ::
  "('vm, 'da, 'tm, 'dt) deps \<Rightarrow> Element \<Rightarrow> bool \<Rightarrow> 'tm outcome" where
  "Must_ToTime deps element checkSpec =
     (case ToTime deps element checkSpec of
        Inl err \<Rightarrow> Panics err
      | Inr timeVal \<Rightarrow> Returns timeVal)"

definition Must_ToDatetimes ::
  "('vm, 'da, 'tm, 'dt) deps \<Rightarrow> Element \<Rightarrow> 'dt list outcome" where
  "Must_ToDatetimes deps element =
     (case ToDatetimes deps element of
        Inl err \<Rightarrow> Panics err
      | Inr datetimes \<Rightarrow> Returns datetimes)"

definition Must_ToDatetime ::
  "('vm, 'da, 'tm, 'dt) deps \<Rightarrow> Element \<Rightarrow> bool \<Rightarrow> 'dt outcome" where
  "Must_ToDatetime deps element checkSpec =
     (case ToDatetime deps element checkSpec of
        Inl err \<Rightarrow> Panics err
      | Inr datetimeVal \<Rightarrow> Returns datetimeVal)"

subsection \<open>The two rules of the specification, in its words\<close>

text \<open>
  The single-value rule (spec, 4.4), for a single-value method whose plural method
  gave the list \<open>xs\<close> and whose own result is \<open>r\<close>: a count other than 1 is the
  multiple-values error with the count; one value, a spec check asked for, a tag that
  is not private and a dictionary entry whose VM is not single is the multiplicity
  error with the raw VM string; one value and no check asked for, or a private tag, or
  no dictionary entry, or an entry whose VM is single, is the sole value.
\<close>

definition spec_singleValueRule ::
  "('vm, 'da, 'tm, 'dt) deps \<Rightarrow> Element \<Rightarrow> bool \<Rightarrow> 'a list \<Rightarrow> decode_error + 'a \<Rightarrow> bool"
  where
  "spec_singleValueRule deps element checkSpec xs r =
     ((length xs \<noteq> 1 \<longrightarrow> r = Inl (ErrMultipleValuesFound (length xs))) \<and>
      (\<forall>info. length xs = 1 \<and> checkSpec \<and> \<not> IsPrivate (Group (Tag element)) \<and>
              tag_Find deps (Tag element) = Some info \<and>
              \<not> IsSingleValue deps (VMInfo info) \<longrightarrow>
              r = Inl (ErrDicomSpecNotSingle (VM info))) \<and>
      (length xs = 1 \<and>
       (\<not> checkSpec \<or> IsPrivate (Group (Tag element)) \<or>
        tag_Find deps (Tag element) = None \<or>
        (\<exists>info. tag_Find deps (Tag element) = Some info \<and>
                IsSingleValue deps (VMInfo info))) \<longrightarrow>
       r = Inr (xs ! 0)))"

text \<open>
  The facade rule (spec, 4.4): when the fallible method succeeds with \<open>v\<close> the facade
  returns \<open>v\<close>, and when it fails with \<open>err\<close> the facade panics with \<open>err\<close>.
\<close>

definition spec_facade :: "decode_error + 'a \<Rightarrow> 'a outcome \<Rightarrow> bool" where
  "spec_facade r m =
     ((\<forall>v. r = Inr v \<longrightarrow> m = Returns v) \<and> (\<forall>err. r = Inl err \<longrightarrow> m = Panics err))"

subsection \<open>A dictionary with one entry\<close>

text \<open>
  For the worked cases below: a dictionary whose only entry, for the tag (0028,0030),
  has the VM \<open>2\<close>, kept as its bounds; a VM is single when both bounds are 1. The
  date parser is the one above; the two others reject every text.
\<close>

definition tag0028_0030 :: Tag where
  "tag0028_0030 = \<lparr>Group = 0x0028, Element = 0x0030\<rparr>"

definition oneEntryDeps :: "(nat \<times> nat, Date, unit, unit) deps" where
  "oneEntryDeps =
     \<lparr>tag_Find = (\<lambda>t. if t = tag0028_0030
                      then Some \<lparr>Info_Tag = t, Info_Name = ''PixelSpacing'', Info_VR = ''DS'',
                                 VM = ''2'', VMInfo = (2, 2)\<rparr>
                      else None),
      IsSingleValue = (\<lambda>vm. fst vm = 1 \<and> snd vm = 1),
      dcmtime_ParseDate = ParseDate,
      dcmtime_ParseTime = (\<lambda>s. Inl (ErrParseTM s)),
      dcmtime_ParseDatetime = (\<lambda>s. Inl (ErrParseDT s))\<rparr>"

section \<open>Properties of the PN codec\<close>

subsection \<open>Splitting and the two loops\<close>

lemma Split_not_Nil: "Split s c \<noteq> []"
  by (induction s) (auto split: list.splits)

lemma Split_chars:
  "(\<forall>s \<in> set (Split xs c). set s \<subseteq> A) \<longleftrightarrow> set xs \<subseteq> insert c A"
proof (induction xs)
  case Nil
  show ?case by simp
next
  case (Cons x xs)
  show ?case
  proof (cases "x = c")
    case True
    with Cons show ?thesis by simp
  next
    case False
    obtain y ys where sp: "Split xs c = y # ys"
      using Split_not_Nil [of xs c] by (cases "Split xs c") auto
    with Cons False show ?thesis by auto
  qed
qed

lemma Split_all_empty:
  "(\<forall>s \<in> set (Split xs c). s = []) \<longleftrightarrow> set xs \<subseteq> {c}"
  using Split_chars [of xs c "{}"] by simp

lemma list_le5:
  "length (xs :: 'a list) \<le> 5 \<Longrightarrow> xs \<noteq> [] \<Longrightarrow>
     (\<exists>a. xs = [a]) \<or> (\<exists>a b. xs = [a, b]) \<or> (\<exists>a b c. xs = [a, b, c]) \<or>
     (\<exists>a b c d. xs = [a, b, c, d]) \<or> (\<exists>a b c d e. xs = [a, b, c, d, e])"
  by (cases xs; cases "tl xs"; cases "tl (tl xs)"; cases "tl (tl (tl xs))";
      cases "tl (tl (tl (tl xs)))") auto

lemma list_le3:
  "length (xs :: 'a list) \<le> 3 \<Longrightarrow> xs \<noteq> [] \<Longrightarrow>
     (\<exists>a. xs = [a]) \<or> (\<exists>a b. xs = [a, b]) \<or> (\<exists>a b c. xs = [a, b, c])"
  by (cases xs; cases "tl xs"; cases "tl (tl xs)") auto

lemma segmentLoop_level:
  "snd (segmentLoop i segs g l) \<le> max l (i + length segs - 1)"
proof (induction segs arbitrary: i g l)
  case Nil
  show ?case by simp
next
  case (Cons v rest)
  have "snd (segmentLoop (Suc i) rest (assignSegment i v g) (if v = [] then i else GroupNullNone))
        \<le> max (if v = [] then i else GroupNullNone) (Suc i + length rest - 1)"
    by (rule Cons.IH)
  then show ?case by (auto simp: GroupNullNone_def)
qed

lemma assignSegment_level [simp]:
  "TrailingNullLevel (assignSegment i v g) = TrailingNullLevel g"
  by (simp add: assignSegment_def)

lemma segmentLoop_keeps_level:
  "TrailingNullLevel (fst (segmentLoop i segs g l)) = TrailingNullLevel g"
  by (induction segs arbitrary: i g l) auto

lemma groupFromValueString_level:
  assumes "groupFromValueString s k = Inr g"
  shows "TrailingNullLevel g \<le> GroupNullAll"
proof -
  let ?segs = "Split s segmentSep"
  from assms have len: "length ?segs \<le> 5"
    by (auto simp: groupFromValueString_def Let_def split: if_splits)
  obtain g0 l0 where loop: "segmentLoop 0 ?segs GroupInfo_zero GroupNullNone = (g0, l0)"
    by (cases "segmentLoop 0 ?segs GroupInfo_zero GroupNullNone")
  have "l0 \<le> 4"
    using segmentLoop_level [of 0 ?segs GroupInfo_zero GroupNullNone] len loop
    by (simp add: GroupNullNone_def)
  moreover have "TrailingNullLevel g0 = 0"
    using segmentLoop_keeps_level [of 0 ?segs GroupInfo_zero GroupNullNone] loop
    by (simp add: GroupInfo_zero_def)
  ultimately show ?thesis
    using assms len loop
    by (auto simp: groupFromValueString_def Let_def GroupNullAll_def split: if_splits)
qed

lemma segmentLoop_IsEmpty:
  assumes "length segs \<le> 5"
  shows "GroupInfo_IsEmpty (fst (segmentLoop 0 segs GroupInfo_zero l)) \<longleftrightarrow> (\<forall>s \<in> set segs. s = [])"
proof (cases "segs = []")
  case True
  then show ?thesis by (simp add: GroupInfo_IsEmpty_def GroupInfo_zero_def)
next
  case False
  from list_le5 [OF assms False] show ?thesis
    by (elim disjE exE) (auto simp: GroupInfo_IsEmpty_def GroupInfo_zero_def assignSegment_def)
qed

lemma groupFromValueString_IsEmpty:
  assumes "groupFromValueString s k = Inr g"
  shows "GroupInfo_IsEmpty g \<longleftrightarrow> set s \<subseteq> {segmentSep}"
proof -
  let ?segs = "Split s segmentSep"
  from assms have len: "length ?segs \<le> 5"
    by (auto simp: groupFromValueString_def Let_def split: if_splits)
  obtain g0 l0 where loop: "segmentLoop 0 ?segs GroupInfo_zero GroupNullNone = (g0, l0)"
    by (cases "segmentLoop 0 ?segs GroupInfo_zero GroupNullNone")
  have "GroupInfo_IsEmpty g \<longleftrightarrow> GroupInfo_IsEmpty g0"
    using assms len loop
    by (auto simp: groupFromValueString_def Let_def GroupInfo_IsEmpty_def split: if_splits)
  also have "\<dots> \<longleftrightarrow> (\<forall>x \<in> set ?segs. x = [])"
    using segmentLoop_IsEmpty [OF len, of GroupNullNone] loop by simp
  also have "\<dots> \<longleftrightarrow> set s \<subseteq> {segmentSep}"
    by (rule Split_all_empty)
  finally show ?thesis .
qed

lemma groupLoop_IsEmpty:
  assumes "length groups \<le> 3" and "groups \<noteq> []"
    and "groupLoop 0 groups Info_zero l = Inr (info, l')"
  shows "Info_IsEmpty info \<longleftrightarrow> (\<forall>g \<in> set groups. set g \<subseteq> {segmentSep})"
proof -
  have zero: "GroupInfo_IsEmpty GroupInfo_zero"
    by (simp add: GroupInfo_IsEmpty_def GroupInfo_zero_def)
  from list_le3 [OF assms(1,2)] show ?thesis
  proof (elim disjE exE)
    fix a assume g: "groups = [a]"
    with assms(3) obtain ga where a: "groupFromValueString a 0 = Inr ga"
      and i: "info = assignGroup 0 ga Info_zero"
      by (auto split: sum.splits)
    show ?thesis
      using zero groupFromValueString_IsEmpty [OF a]
      by (simp add: g i assignGroup_def Info_IsEmpty_def Info_zero_def pnGroupAlphabetic_def)
  next
    fix a b assume g: "groups = [a, b]"
    with assms(3) obtain ga gb where a: "groupFromValueString a 0 = Inr ga"
      and b: "groupFromValueString b (Suc 0) = Inr gb"
      and i: "info = assignGroup (Suc 0) gb (assignGroup 0 ga Info_zero)"
      by (auto split: sum.splits)
    show ?thesis
      using zero groupFromValueString_IsEmpty [OF a] groupFromValueString_IsEmpty [OF b]
      by (simp add: g i assignGroup_def Info_IsEmpty_def Info_zero_def pnGroupAlphabetic_def
          pnGroupIdeographic_def)
  next
    fix a b c assume g: "groups = [a, b, c]"
    with assms(3) obtain ga gb gc where a: "groupFromValueString a 0 = Inr ga"
      and b: "groupFromValueString b (Suc 0) = Inr gb"
      and c: "groupFromValueString c (Suc (Suc 0)) = Inr gc"
      and i: "info = assignGroup (Suc (Suc 0)) gc (assignGroup (Suc 0) gb (assignGroup 0 ga Info_zero))"
      by (auto split: sum.splits)
    show ?thesis
      using zero groupFromValueString_IsEmpty [OF a] groupFromValueString_IsEmpty [OF b]
        groupFromValueString_IsEmpty [OF c]
      by (simp add: g i assignGroup_def Info_IsEmpty_def Info_zero_def pnGroupAlphabetic_def
          pnGroupIdeographic_def pnGroupPhonetic_def)
  qed
qed

subsection \<open>Emptiness\<close>

lemma Parse_IsEmpty:
  assumes "Parse text = Inr info"
  shows "Info_IsEmpty info \<longleftrightarrow> set text \<subseteq> {groupSep, segmentSep}"
proof -
  let ?groups = "Split text groupSep"
  from assms have len: "length ?groups \<le> 3"
    by (auto simp: Parse_def Let_def split: if_splits)
  from assms len obtain i0 l0 where loop: "groupLoop 0 ?groups Info_zero InfoNullNone = Inr (i0, l0)"
    and info: "info = i0\<lparr>Info_TrailingNullLevel := l0\<rparr>"
    by (auto simp: Parse_def Let_def split: if_splits sum.splits)
  have "Info_IsEmpty info \<longleftrightarrow> Info_IsEmpty i0"
    by (simp add: info Info_IsEmpty_def)
  also have "\<dots> \<longleftrightarrow> (\<forall>g \<in> set ?groups. set g \<subseteq> {segmentSep})"
    by (rule groupLoop_IsEmpty [OF len Split_not_Nil loop])
  also have "\<dots> \<longleftrightarrow> set text \<subseteq> insert groupSep {segmentSep}"
    by (rule Split_chars)
  finally show ?thesis by simp
qed

text \<open>
  Claim C8. \<open>Info_IsEmpty\<close> holds exactly when the 15 segment fields of the three
  groups are all empty; it does not depend on the trailing null levels, whatever
  \<open>WithFormat\<close> sets them to. Hence, for every text that \<open>Parse\<close> accepts, the parsed
  value is empty exactly when the text is made of the separators \<open>=\<close> and \<open>^\<close> only
  (the empty text included).
\<close>

theorem Info_IsEmpty_iff:
  "(Info_IsEmpty info \<longleftrightarrow>
      FamilyName (Alphabetic info) = [] \<and> GivenName (Alphabetic info) = [] \<and>
      MiddleName (Alphabetic info) = [] \<and> NamePrefix (Alphabetic info) = [] \<and>
      NameSuffix (Alphabetic info) = [] \<and>
      FamilyName (Ideographic info) = [] \<and> GivenName (Ideographic info) = [] \<and>
      MiddleName (Ideographic info) = [] \<and> NamePrefix (Ideographic info) = [] \<and>
      NameSuffix (Ideographic info) = [] \<and>
      FamilyName (Phonetic info) = [] \<and> GivenName (Phonetic info) = [] \<and>
      MiddleName (Phonetic info) = [] \<and> NamePrefix (Phonetic info) = [] \<and>
      NameSuffix (Phonetic info) = []) \<and>
   (Info_IsEmpty (WithFormat info l la li lp) \<longleftrightarrow> Info_IsEmpty info) \<and>
   (Parse text = Inr parsed \<longrightarrow>
      (Info_IsEmpty parsed \<longleftrightarrow> set text \<subseteq> {groupSep, segmentSep}))"
proof (intro conjI impI)
  show "Info_IsEmpty (WithFormat info l la li lp) \<longleftrightarrow> Info_IsEmpty info"
    by (simp add: Info_IsEmpty_def GroupInfo_IsEmpty_def WithFormat_def)
next
  assume "Parse text = Inr parsed"
  then show "Info_IsEmpty parsed \<longleftrightarrow> set text \<subseteq> {groupSep, segmentSep}"
    by (rule Parse_IsEmpty)
qed (auto simp: Info_IsEmpty_def GroupInfo_IsEmpty_def)

theorem Info_IsEmpty_iff_witness:
  "Parse ''^^=^'' =
     Inr \<lparr>Alphabetic = GroupInfo_zero\<lparr>TrailingNullLevel := GroupNullMiddle\<rparr>,
          Ideographic = GroupInfo_zero\<lparr>TrailingNullLevel := GroupNullGiven\<rparr>,
          Phonetic = GroupInfo_zero, Info_TrailingNullLevel = InfoNullNone\<rparr> \<and>
   Info_IsEmpty
     \<lparr>Alphabetic = GroupInfo_zero\<lparr>TrailingNullLevel := GroupNullMiddle\<rparr>,
      Ideographic = GroupInfo_zero\<lparr>TrailingNullLevel := GroupNullGiven\<rparr>,
      Phonetic = GroupInfo_zero, Info_TrailingNullLevel = InfoNullNone\<rparr> \<and>
   set ''^^=^'' \<subseteq> {groupSep, segmentSep}"
proof -
  have p: "Parse ''^^=^'' =
     Inr \<lparr>Alphabetic = GroupInfo_zero\<lparr>TrailingNullLevel := GroupNullMiddle\<rparr>,
          Ideographic = GroupInfo_zero\<lparr>TrailingNullLevel := GroupNullGiven\<rparr>,
          Phonetic = GroupInfo_zero, Info_TrailingNullLevel = InfoNullNone\<rparr>"
    by code_simp
  have s: "set ''^^=^'' \<subseteq> {groupSep, segmentSep}"
    by (simp add: groupSep_def segmentSep_def)
  from Info_IsEmpty_iff [of _ _ _ _ _ "''^^=^''"] p s show ?thesis
    by blast
qed

lemma assignGroup_levels:
  "groupLevelsValid info \<Longrightarrow> TrailingNullLevel g \<le> GroupNullAll \<Longrightarrow>
     groupLevelsValid (assignGroup i g info)"
  by (simp add: groupLevelsValid_def assignGroup_def)

lemma groupLoop_levels:
  assumes "groupLoop i groups info l = Inr (info', l')" and "groupLevelsValid info"
  shows "groupLevelsValid info' \<and> l' \<le> max l (i + length groups - 1)"
  using assms
proof (induction groups arbitrary: i info l)
  case Nil
  then show ?case by simp
next
  case (Cons s rest)
  from Cons.prems(1) obtain g where g: "groupFromValueString s i = Inr g"
    and rest: "groupLoop (Suc i) rest (assignGroup i g info)
                 (if s = [] then i else InfoNullNone) = Inr (info', l')"
    by (auto split: sum.splits)
  have "groupLevelsValid (assignGroup i g info)"
    using Cons.prems(2) groupFromValueString_level [OF g] by (rule assignGroup_levels)
  from Cons.IH [OF rest this] show ?case
    by (auto simp: InfoNullNone_def split: if_splits)
qed

lemma Parse_levels:
  assumes "Parse text = Inr info"
  shows "groupLevelsValid info \<and> Info_TrailingNullLevel info \<le> InfoNullAll"
proof -
  let ?groups = "Split text groupSep"
  from assms have len: "length ?groups \<le> 3"
    by (auto simp: Parse_def Let_def split: if_splits)
  from assms len obtain i0 l0 where loop: "groupLoop 0 ?groups Info_zero InfoNullNone = Inr (i0, l0)"
    and info: "info = i0\<lparr>Info_TrailingNullLevel := l0\<rparr>"
    by (auto simp: Parse_def Let_def split: if_splits sum.splits)
  have "groupLevelsValid Info_zero"
    by (simp add: groupLevelsValid_def Info_zero_def GroupInfo_zero_def)
  from groupLoop_levels [OF loop this] len show ?thesis
    by (auto simp: info groupLevelsValid_def InfoNullNone_def InfoNullAll_def)
qed

subsection \<open>Parsed values always serialize\<close>

text \<open>
  Claim C10. Whenever \<open>Parse\<close> succeeds, the overall trailing null level of the result
  is at most \<open>InfoNullAll\<close> and the level of each of its three groups is at most
  \<open>GroupNullAll\<close>: both validation functions return no error on them, so
  \<open>GroupInfo_DCM\<close> of each group and \<open>Info_DCM\<close> of the whole return a string and
  never take the panic branch.
\<close>

theorem Parse_DCM_never_panics:
  assumes "Parse text = Inr info"
  shows "validateInfoNullSepLevel (Info_TrailingNullLevel info) = None \<and>
         validateGroupNullSepLevel (TrailingNullLevel (Alphabetic info)) = None \<and>
         validateGroupNullSepLevel (TrailingNullLevel (Ideographic info)) = None \<and>
         validateGroupNullSepLevel (TrailingNullLevel (Phonetic info)) = None \<and>
         (\<exists>a. GroupInfo_DCM (Alphabetic info) = Inr a) \<and>
         (\<exists>i. GroupInfo_DCM (Ideographic info) = Inr i) \<and>
         (\<exists>p. GroupInfo_DCM (Phonetic info) = Inr p) \<and>
         (\<exists>s. Info_DCM info = Inr s)"
proof -
  from Parse_levels [OF assms]
  have a: "TrailingNullLevel (Alphabetic info) \<le> GroupNullAll"
    and i: "TrailingNullLevel (Ideographic info) \<le> GroupNullAll"
    and p: "TrailingNullLevel (Phonetic info) \<le> GroupNullAll"
    and t: "Info_TrailingNullLevel info \<le> InfoNullAll"
    by (simp_all add: groupLevelsValid_def)
  from a i p t show ?thesis
    by (simp add: Info_DCM_def GroupInfo_DCM_def validateGroupNullSepLevel_def
        validateInfoNullSepLevel_def)
qed

theorem Parse_DCM_never_panics_witness:
  "\<exists>info. Parse ''Potter^Harry^^^=='' = Inr info \<and>
     Info_TrailingNullLevel info = InfoNullAll \<and>
     TrailingNullLevel (Alphabetic info) = GroupNullAll \<and>
     validateInfoNullSepLevel (Info_TrailingNullLevel info) = None \<and>
     validateGroupNullSepLevel (TrailingNullLevel (Alphabetic info)) = None \<and>
     validateGroupNullSepLevel (TrailingNullLevel (Ideographic info)) = None \<and>
     validateGroupNullSepLevel (TrailingNullLevel (Phonetic info)) = None \<and>
     (\<exists>a. GroupInfo_DCM (Alphabetic info) = Inr a) \<and>
     (\<exists>i. GroupInfo_DCM (Ideographic info) = Inr i) \<and>
     (\<exists>p. GroupInfo_DCM (Phonetic info) = Inr p) \<and>
     (\<exists>s. Info_DCM info = Inr s)"
proof -
  have p: "Parse ''Potter^Harry^^^=='' =
     Inr \<lparr>Alphabetic = \<lparr>FamilyName = ''Potter'', GivenName = ''Harry'', MiddleName = [],
            NamePrefix = [], NameSuffix = [], TrailingNullLevel = 4\<rparr>,
          Ideographic = GroupInfo_zero, Phonetic = GroupInfo_zero,
          Info_TrailingNullLevel = 2\<rparr>"
    by code_simp
  from Parse_DCM_never_panics [OF p] show ?thesis
    unfolding p by (simp add: InfoNullAll_def GroupNullAll_def)
qed

subsection \<open>Too many groups, too many segments\<close>

lemma groupFromValueString_too_many:
  "length (Split s segmentSep) > 5 \<Longrightarrow>
     groupFromValueString s k = Inl (ErrTooManyGroupSegments k (length (Split s segmentSep)))"
  by (simp add: groupFromValueString_def)

lemma groupFromValueString_ok:
  "length (Split s segmentSep) \<le> 5 \<Longrightarrow> \<exists>g. groupFromValueString s k = Inr g"
  by (auto simp: groupFromValueString_def Let_def split: prod.splits)

lemma groupLoop_too_many:
  assumes "\<exists>g \<in> set groups. length (Split g segmentSep) > 5"
  shows "\<exists>k < length groups.
           length (Split (groups ! k) segmentSep) > 5 \<and>
           (\<forall>j < k. length (Split (groups ! j) segmentSep) \<le> 5) \<and>
           groupLoop i groups info l =
             Inl (ErrTooManyGroupSegments (i + k) (length (Split (groups ! k) segmentSep)))"
  using assms
proof (induction groups arbitrary: i info l)
  case Nil
  then show ?case by simp
next
  case (Cons s rest)
  show ?case
  proof (cases "length (Split s segmentSep) > 5")
    case True
    then have "groupLoop i (s # rest) info l =
        Inl (ErrTooManyGroupSegments (i + 0) (length (Split ((s # rest) ! 0) segmentSep)))"
      by (simp add: groupFromValueString_too_many)
    with True show ?thesis by (intro exI [of _ 0]) simp
  next
    case False
    then obtain g where g: "groupFromValueString s i = Inr g"
      using groupFromValueString_ok [of s i] by auto
    from False Cons.prems have "\<exists>g \<in> set rest. length (Split g segmentSep) > 5" by auto
    from Cons.IH [OF this, of "Suc i" "assignGroup i g info" "if s = [] then i else InfoNullNone"]
    obtain k where k: "k < length rest" "length (Split (rest ! k) segmentSep) > 5"
      "\<forall>j < k. length (Split (rest ! j) segmentSep) \<le> 5"
      "groupLoop (Suc i) rest (assignGroup i g info) (if s = [] then i else InfoNullNone) =
         Inl (ErrTooManyGroupSegments (Suc i + k) (length (Split (rest ! k) segmentSep)))"
      by blast
    have "\<forall>j < Suc k. length (Split ((s # rest) ! j) segmentSep) \<le> 5"
      using False k(3) by (auto simp: less_Suc_eq_0_disj)
    with k g show ?thesis by (intro exI [of _ "Suc k"]) simp
  qed
qed

text \<open>
  Claim C3. If splitting the text on \<open>=\<close> gives more than 3 groups, \<open>Parse\<close> fails
  with the too-many-groups error carrying the number of groups. Otherwise, if some
  group splits on \<open>^\<close> into more than 5 segments, \<open>Parse\<close> fails with the
  too-many-segments error that carries the index of the first such group, whose name
  is Alphabetic, Ideographic or Phonetic, and the number of its segments.
\<close>

theorem Parse_too_many:
  "(length (Split text groupSep) > 3 \<longrightarrow>
      Parse text = Inl (ErrTooManyGroups (length (Split text groupSep)))) \<and>
   (length (Split text groupSep) \<le> 3 \<and>
    (\<exists>g \<in> set (Split text groupSep). length (Split g segmentSep) > 5) \<longrightarrow>
      (\<exists>k < length (Split text groupSep).
         length (Split (Split text groupSep ! k) segmentSep) > 5 \<and>
         (\<forall>j < k. length (Split (Split text groupSep ! j) segmentSep) \<le> 5) \<and>
         Parse text =
           Inl (ErrTooManyGroupSegments k
                  (length (Split (Split text groupSep ! k) segmentSep))) \<and>
         pnGroup_String k \<in> {Some ''Alphabetic'', Some ''Ideographic'', Some ''Phonetic''}))"
proof (intro conjI impI)
  assume "length (Split text groupSep) > 3"
  then show "Parse text = Inl (ErrTooManyGroups (length (Split text groupSep)))"
    by (simp add: Parse_def)
next
  let ?groups = "Split text groupSep"
  assume a: "length ?groups \<le> 3 \<and> (\<exists>g \<in> set ?groups. length (Split g segmentSep) > 5)"
  then have len: "length ?groups \<le> 3" and ex: "\<exists>g \<in> set ?groups. length (Split g segmentSep) > 5"
    by simp_all
  from groupLoop_too_many [OF ex, of 0 Info_zero InfoNullNone]
  obtain k where k: "k < length ?groups" "length (Split (?groups ! k) segmentSep) > 5"
    "\<forall>j < k. length (Split (?groups ! j) segmentSep) \<le> 5"
    "groupLoop 0 ?groups Info_zero InfoNullNone =
       Inl (ErrTooManyGroupSegments k (length (Split (?groups ! k) segmentSep)))"
    by auto
  from k(1) len have "k = 0 \<or> k = 1 \<or> k = 2" by arith
  then have name: "pnGroup_String k \<in> {Some ''Alphabetic'', Some ''Ideographic'', Some ''Phonetic''}"
    by (auto simp: pnGroup_String_def pnGroupAlphabetic_def pnGroupIdeographic_def
        pnGroupPhonetic_def)
  have "Parse text = Inl (ErrTooManyGroupSegments k (length (Split (?groups ! k) segmentSep)))"
    using len k(4) by (simp add: Parse_def)
  with k name show "\<exists>k < length ?groups.
         length (Split (?groups ! k) segmentSep) > 5 \<and>
         (\<forall>j < k. length (Split (?groups ! j) segmentSep) \<le> 5) \<and>
         Parse text = Inl (ErrTooManyGroupSegments k (length (Split (?groups ! k) segmentSep))) \<and>
         pnGroup_String k \<in> {Some ''Alphabetic'', Some ''Ideographic'', Some ''Phonetic''}"
    by blast
qed


theorem Parse_too_many_witness:
  "Parse ''==='' = Inl (ErrTooManyGroups 4) \<and>
   Parse ''=^^^^^'' = Inl (ErrTooManyGroupSegments pnGroupIdeographic 6) \<and>
   pnGroup_String pnGroupIdeographic = Some ''Ideographic'' \<and>
   Parse ''^^^^^'' = Inl (ErrTooManyGroupSegments pnGroupAlphabetic 6) \<and>
   pnGroup_String pnGroupAlphabetic = Some ''Alphabetic''"
proof -
  have s1: "Split ''==='' groupSep = [[], [], [], []]" by code_simp
  have s2: "Split ''=^^^^^'' groupSep = [[], ''^^^^^'']" by code_simp
  have s3: "Split ''^^^^^'' segmentSep = [[], [], [], [], [], []]" by code_simp
  have s4: "Split [] segmentSep = [[]]" by simp
  have "3 < length (Split ''==='' groupSep)"
    by (simp only: s1) simp
  with Parse_too_many [of "''===''"]
  have "Parse ''==='' = Inl (ErrTooManyGroups (length (Split ''==='' groupSep)))"
    by blast
  then have a: "Parse ''==='' = Inl (ErrTooManyGroups 4)"
    by (simp only: s1) simp
  have "length (Split ''=^^^^^'' groupSep) \<le> 3 \<and>
        (\<exists>g \<in> set (Split ''=^^^^^'' groupSep). length (Split g segmentSep) > 5)"
    by (simp only: s2) (simp add: s3 segmentSep_def)
  with Parse_too_many [of "''=^^^^^''"]
  obtain k where k: "k < length (Split ''=^^^^^'' groupSep)"
    "length (Split (Split ''=^^^^^'' groupSep ! k) segmentSep) > 5"
    "Parse ''=^^^^^'' =
       Inl (ErrTooManyGroupSegments k
              (length (Split (Split ''=^^^^^'' groupSep ! k) segmentSep)))"
    by blast
  from k(1) have "k = 0 \<or> k = 1"
    by (simp only: s2) auto
  with k(2) have "k = 1"
    by (auto simp only: s2 s4 nth_Cons_0 list.size)
  with k(3) have b: "Parse ''=^^^^^'' = Inl (ErrTooManyGroupSegments pnGroupIdeographic 6)"
    by (simp add: pnGroupIdeographic_def segmentSep_def groupSep_def)
  have c: "Parse ''^^^^^'' = Inl (ErrTooManyGroupSegments pnGroupAlphabetic 6)"
    by code_simp
  show ?thesis
    using a b c by (simp add: pnGroup_String_def pnGroupIdeographic_def pnGroupAlphabetic_def)
qed

subsection \<open>Empty and separator-only texts\<close>

lemma groupLoop_final_level:
  assumes "groupLoop i groups info l = Inr (info', l')" and "groups \<noteq> []"
  shows "l' = (if last groups = [] then i + length groups - 1 else InfoNullNone)"
  using assms
proof (induction groups arbitrary: i info l)
  case Nil
  then show ?case by simp
next
  case (Cons s rest)
  from Cons.prems(1) obtain g where g: "groupFromValueString s i = Inr g"
    and rest: "groupLoop (Suc i) rest (assignGroup i g info)
                 (if s = [] then i else InfoNullNone) = Inr (info', l')"
    by (auto split: sum.splits)
  show ?case
  proof (cases "rest = []")
    case True
    with rest show ?thesis by auto
  next
    case False
    from Cons.IH [OF rest False] False show ?thesis by simp
  qed
qed

lemma Parse_final_level:
  assumes "Parse text = Inr info"
  shows "Info_TrailingNullLevel info =
           (if last (Split text groupSep) = [] then length (Split text groupSep) - 1
            else InfoNullNone)"
proof -
  let ?groups = "Split text groupSep"
  from assms have len: "length ?groups \<le> 3"
    by (auto simp: Parse_def Let_def split: if_splits)
  from assms len obtain i0 l0 where loop: "groupLoop 0 ?groups Info_zero InfoNullNone = Inr (i0, l0)"
    and info: "info = i0\<lparr>Info_TrailingNullLevel := l0\<rparr>"
    by (auto simp: Parse_def Let_def split: if_splits sum.splits)
  from groupLoop_final_level [OF loop Split_not_Nil] show ?thesis
    by (simp add: info)
qed

text \<open>
  Claim C7, as amended. Parsing the empty text succeeds and returns the value whose 15
  segment fields are all empty and whose overall and per-group trailing null levels
  are all NONE. Parsing \<open>==\<close> succeeds and returns a fully empty value whose overall
  level is ALL. For every text made of separators only that \<open>Parse\<close> accepts, the
  result is fully empty, and its overall level is ALL exactly when the text splits
  into three groups of which the last is empty.
\<close>

theorem Parse_separators_only:
  "Parse [] = Inr Info_zero \<and>
   Info_IsEmpty Info_zero \<and>
   Info_TrailingNullLevel Info_zero = InfoNullNone \<and>
   TrailingNullLevel (Alphabetic Info_zero) = GroupNullNone \<and>
   TrailingNullLevel (Ideographic Info_zero) = GroupNullNone \<and>
   TrailingNullLevel (Phonetic Info_zero) = GroupNullNone \<and>
   Parse ''=='' = Inr (Info_zero\<lparr>Info_TrailingNullLevel := InfoNullAll\<rparr>) \<and>
   (set text \<subseteq> {groupSep, segmentSep} \<and> Parse text = Inr info \<longrightarrow>
      Info_IsEmpty info \<and>
      (Info_TrailingNullLevel info = InfoNullAll \<longleftrightarrow>
         length (Split text groupSep) = 3 \<and> last (Split text groupSep) = []))"
proof (intro conjI impI)
  show "Parse [] = Inr Info_zero" by code_simp
  show "Parse ''=='' = Inr (Info_zero\<lparr>Info_TrailingNullLevel := InfoNullAll\<rparr>)" by code_simp
  show "Info_IsEmpty Info_zero"
    by (simp add: Info_IsEmpty_def GroupInfo_IsEmpty_def Info_zero_def GroupInfo_zero_def)
next
  assume a: "set text \<subseteq> {groupSep, segmentSep} \<and> Parse text = Inr info"
  then show "Info_IsEmpty info" using Parse_IsEmpty [of "text" info] by simp
  from a have p: "Parse text = Inr info" by simp
  then have "length (Split text groupSep) \<le> 3"
    by (auto simp: Parse_def Let_def split: if_splits)
  with Parse_final_level [OF p]
  show "Info_TrailingNullLevel info = InfoNullAll \<longleftrightarrow>
         length (Split text groupSep) = 3 \<and> last (Split text groupSep) = []"
    by (auto simp: InfoNullAll_def InfoNullNone_def)
qed (simp_all add: Info_zero_def GroupInfo_zero_def InfoNullNone_def GroupNullNone_def)

theorem Parse_separators_only_witness:
  "set ''^=='' \<subseteq> {groupSep, segmentSep} \<and>
   Parse ''^=='' =
     Inr \<lparr>Alphabetic = GroupInfo_zero\<lparr>TrailingNullLevel := GroupNullGiven\<rparr>,
          Ideographic = GroupInfo_zero, Phonetic = GroupInfo_zero,
          Info_TrailingNullLevel = InfoNullAll\<rparr> \<and>
   Info_IsEmpty
     \<lparr>Alphabetic = GroupInfo_zero\<lparr>TrailingNullLevel := GroupNullGiven\<rparr>,
      Ideographic = GroupInfo_zero, Phonetic = GroupInfo_zero,
      Info_TrailingNullLevel = InfoNullAll\<rparr> \<and>
   length (Split ''^=='' groupSep) = 3 \<and> last (Split ''^=='' groupSep) = []"
proof -
  have p: "Parse ''^=='' =
     Inr \<lparr>Alphabetic = GroupInfo_zero\<lparr>TrailingNullLevel := GroupNullGiven\<rparr>,
          Ideographic = GroupInfo_zero, Phonetic = GroupInfo_zero,
          Info_TrailingNullLevel = InfoNullAll\<rparr>"
    by code_simp
  have s: "set ''^=='' \<subseteq> {groupSep, segmentSep}"
    by (simp add: groupSep_def segmentSep_def)
  have l: "Info_TrailingNullLevel
     \<lparr>Alphabetic = GroupInfo_zero\<lparr>TrailingNullLevel := GroupNullGiven\<rparr>,
      Ideographic = GroupInfo_zero, Phonetic = GroupInfo_zero,
      Info_TrailingNullLevel = InfoNullAll\<rparr> = InfoNullAll"
    by simp
  from Parse_separators_only [of "''^==''"] p s l show ?thesis
    by blast
qed

text \<open>
  Claim C7 as stated fails: the text \<open>=\<close> is made of separators only, it parses to a
  fully empty value, and the overall level of that value is IDEOGRAPHIC, not ALL.
\<close>

theorem separators_only_level_counterexample:
  "set ''='' \<subseteq> {groupSep, segmentSep} \<and>
   Parse ''='' = Inr (Info_zero\<lparr>Info_TrailingNullLevel := InfoNullIdeographic\<rparr>) \<and>
   Info_TrailingNullLevel (Info_zero\<lparr>Info_TrailingNullLevel := InfoNullIdeographic\<rparr>)
     \<noteq> InfoNullAll"
proof (intro conjI)
  show "Parse ''='' = Inr (Info_zero\<lparr>Info_TrailingNullLevel := InfoNullIdeographic\<rparr>)"
    by code_simp
qed (simp_all add: groupSep_def segmentSep_def InfoNullIdeographic_def InfoNullAll_def)

subsection \<open>The renderer on the cases of the package's tests\<close>

text \<open>
  The values and texts of \<^verbatim>\<open>TestInfo\<close>: serializing the expected value gives the raw
  text.
\<close>

lemma renderWithSeps_tests:
  "Info_DCM
     \<lparr>Alphabetic = \<lparr>FamilyName = ''aFamily'', GivenName = ''aGiven'', MiddleName = ''aMiddle'',
                    NamePrefix = ''aPrefix'', NameSuffix = ''aSuffix'',
                    TrailingNullLevel = GroupNullNone\<rparr>,
      Ideographic = \<lparr>FamilyName = ''iFamily'', GivenName = ''iGiven'', MiddleName = ''iMiddle'',
                     NamePrefix = ''iPrefix'', NameSuffix = ''iSuffix'',
                     TrailingNullLevel = GroupNullNone\<rparr>,
      Phonetic = GroupInfo_zero, Info_TrailingNullLevel = InfoNullAll\<rparr> =
   Inr ''aFamily^aGiven^aMiddle^aPrefix^aSuffix=iFamily^iGiven^iMiddle^iPrefix^iSuffix=''"
  "Info_DCM
     \<lparr>Alphabetic = \<lparr>FamilyName = ''aFamily'', GivenName = ''aGiven'', MiddleName = ''aMiddle'',
                    NamePrefix = ''aPrefix'', NameSuffix = ''aSuffix'',
                    TrailingNullLevel = GroupNullNone\<rparr>,
      Ideographic = GroupInfo_zero, Phonetic = GroupInfo_zero,
      Info_TrailingNullLevel = InfoNullIdeographic\<rparr> =
   Inr ''aFamily^aGiven^aMiddle^aPrefix^aSuffix=''"
  "Info_DCM
     \<lparr>Alphabetic = GroupInfo_zero,
      Ideographic = \<lparr>FamilyName = ''iFamily'', GivenName = ''iGiven'', MiddleName = ''iMiddle'',
                     NamePrefix = ''iPrefix'', NameSuffix = ''iSuffix'',
                     TrailingNullLevel = GroupNullNone\<rparr>,
      Phonetic = \<lparr>FamilyName = ''pFamily'', GivenName = ''pGiven'', MiddleName = ''pMiddle'',
                  NamePrefix = ''pPrefix'', NameSuffix = ''pSuffix'',
                  TrailingNullLevel = GroupNullNone\<rparr>,
      Info_TrailingNullLevel = InfoNullNone\<rparr> =
   Inr ''=iFamily^iGiven^iMiddle^iPrefix^iSuffix=pFamily^pGiven^pMiddle^pPrefix^pSuffix''"
  "Info_DCM (Info_zero\<lparr>Info_TrailingNullLevel := InfoNullAll\<rparr>) = Inr ''==''"
  "Info_DCM Info_zero = Inr []"
  by code_simp+

subsection \<open>Forcing the null levels\<close>

text \<open>
  Claim C4. \<open>Potter^Harry\<close> parses; \<open>WithTrailingNulls\<close> sets the overall level and
  the level of every group to ALL, and the result serializes to
  \<open>Potter^Harry^^^=^^^^=^^^^\<close>. That text parses; \<open>WithoutTrailingNulls\<close> sets every
  level to NONE, and the result serializes to \<open>Potter^Harry\<close>.
\<close>

theorem Potter_Harry_round_trip:
  "Parse ''Potter^Harry'' =
     Inr (Info_zero\<lparr>Alphabetic :=
            GroupInfo_zero\<lparr>FamilyName := ''Potter'', GivenName := ''Harry''\<rparr>\<rparr>) \<and>
   WithTrailingNulls
     (Info_zero\<lparr>Alphabetic :=
        GroupInfo_zero\<lparr>FamilyName := ''Potter'', GivenName := ''Harry''\<rparr>\<rparr>) =
     \<lparr>Alphabetic = \<lparr>FamilyName = ''Potter'', GivenName = ''Harry'', MiddleName = [],
                    NamePrefix = [], NameSuffix = [], TrailingNullLevel = GroupNullAll\<rparr>,
      Ideographic = GroupInfo_zero\<lparr>TrailingNullLevel := GroupNullAll\<rparr>,
      Phonetic = GroupInfo_zero\<lparr>TrailingNullLevel := GroupNullAll\<rparr>,
      Info_TrailingNullLevel = InfoNullAll\<rparr> \<and>
   Info_DCM
     (WithTrailingNulls
        (Info_zero\<lparr>Alphabetic :=
           GroupInfo_zero\<lparr>FamilyName := ''Potter'', GivenName := ''Harry''\<rparr>\<rparr>)) =
     Inr ''Potter^Harry^^^=^^^^=^^^^'' \<and>
   Parse ''Potter^Harry^^^=^^^^=^^^^'' =
     Inr \<lparr>Alphabetic = \<lparr>FamilyName = ''Potter'', GivenName = ''Harry'', MiddleName = [],
                    NamePrefix = [], NameSuffix = [], TrailingNullLevel = GroupNullAll\<rparr>,
      Ideographic = GroupInfo_zero\<lparr>TrailingNullLevel := GroupNullAll\<rparr>,
      Phonetic = GroupInfo_zero\<lparr>TrailingNullLevel := GroupNullAll\<rparr>,
      Info_TrailingNullLevel = InfoNullNone\<rparr> \<and>
   WithoutTrailingNulls
     \<lparr>Alphabetic = \<lparr>FamilyName = ''Potter'', GivenName = ''Harry'', MiddleName = [],
                    NamePrefix = [], NameSuffix = [], TrailingNullLevel = GroupNullAll\<rparr>,
      Ideographic = GroupInfo_zero\<lparr>TrailingNullLevel := GroupNullAll\<rparr>,
      Phonetic = GroupInfo_zero\<lparr>TrailingNullLevel := GroupNullAll\<rparr>,
      Info_TrailingNullLevel = InfoNullNone\<rparr> =
     Info_zero\<lparr>Alphabetic :=
        GroupInfo_zero\<lparr>FamilyName := ''Potter'', GivenName := ''Harry''\<rparr>\<rparr> \<and>
   Info_DCM
     (WithoutTrailingNulls
       \<lparr>Alphabetic = \<lparr>FamilyName = ''Potter'', GivenName = ''Harry'', MiddleName = [],
                    NamePrefix = [], NameSuffix = [], TrailingNullLevel = GroupNullAll\<rparr>,
        Ideographic = GroupInfo_zero\<lparr>TrailingNullLevel := GroupNullAll\<rparr>,
        Phonetic = GroupInfo_zero\<lparr>TrailingNullLevel := GroupNullAll\<rparr>,
        Info_TrailingNullLevel = InfoNullNone\<rparr>) = Inr ''Potter^Harry''"
  by (intro conjI; code_simp)

section \<open>Properties of the DA codec\<close>

lemma atoi_snoc: "atoi (s @ [c]) = 10 * atoi s + digitValue c"
  by (simp add: atoi_def)

lemma digit_char: "isDigit c \<Longrightarrow> char_of (48 + digitValue c) = c"
proof -
  assume "isDigit c"
  then have "48 + digitValue c = (of_char c :: nat)"
    by (simp add: isDigit_def digitValue_def)
  then show ?thesis by simp
qed

lemma digitValue_less: "isDigit c \<Longrightarrow> digitValue c < 10"
  by (auto simp: isDigit_def digitValue_def)

lemma digitGroup_atoi: "allDigits s \<Longrightarrow> digitGroup (length s) (atoi s) = s"
proof (induction s rule: rev_induct)
  case Nil
  show ?case by simp
next
  case (snoc c s)
  then have d: "isDigit c" and ds: "allDigits s"
    by (simp_all add: allDigits_def)
  from digitValue_less [OF d] have "(10 * atoi s + digitValue c) div 10 = atoi s"
    and "(10 * atoi s + digitValue c) mod 10 = digitValue c"
    by simp_all
  with snoc.IH [OF ds] digit_char [OF d] show ?case
    by (simp add: atoi_snoc)
qed

lemma digitGroup_4: "allDigits s \<Longrightarrow> length s = 4 \<Longrightarrow> digitGroup 4 (atoi s) = s"
  using digitGroup_atoi [of s] by simp

lemma digitGroup_2: "allDigits s \<Longrightarrow> length s = 2 \<Longrightarrow> digitGroup 2 (atoi s) = s"
  using digitGroup_atoi [of s] by simp

lemma allDigits_take: "allDigits s \<Longrightarrow> allDigits (take n s)"
  unfolding allDigits_def list_all_iff by (auto dest: in_set_takeD)

lemma allDigits_drop: "allDigits s \<Longrightarrow> allDigits (drop n s)"
  unfolding allDigits_def list_all_iff by (auto dest: in_set_dropD)

lemma isDigit_digitGroup: "c \<in> set (digitGroup w n) \<Longrightarrow> isDigit c"
proof (induction w arbitrary: n)
  case 0
  then show ?case by simp
next
  case (Suc w)
  have "n mod 10 < 10" by simp
  then have "isDigit (char_of (48 + n mod 10))"
    unfolding isDigit_def by (simp add: of_char_of)
  with Suc show ?case by auto
qed

lemma length_digitGroup: "length (digitGroup w n) = w"
  by (induction w arbitrary: n) simp_all

lemma allDigits_digitGroup: "allDigits (digitGroup w n)"
  unfolding allDigits_def list_all_iff using isDigit_digitGroup by blast

lemma allDigits_append: "allDigits (xs @ ys) \<longleftrightarrow> allDigits xs \<and> allDigits ys"
  by (simp add: allDigits_def)

lemma allDigits_Date_DCM: "allDigits (Date_DCM da)"
  by (cases "Precision da")
    (simp_all add: Date_DCM_def allDigits_append allDigits_digitGroup)

lemma length_Date_DCM:
  "length (Date_DCM da) =
     (case Precision da of PrecisionYear \<Rightarrow> 4 | PrecisionMonth \<Rightarrow> 6
      | PrecisionDay \<Rightarrow> 8 | PrecisionFull \<Rightarrow> 8)"
  by (cases "Precision da") (simp_all add: Date_DCM_def length_digitGroup)

lemma dot_not_digit: "\<not> isDigit CHR ''.''"
  by (simp add: isDigit_def)

lemma Date_DCM_no_dot: "CHR ''.'' \<notin> set (Date_DCM da)"
  using allDigits_Date_DCM [of da] dot_not_digit
  unfolding allDigits_def list_all_iff by blast

lemma split8: "length s = 8 \<Longrightarrow> take 4 s @ take 2 (drop 4 s) @ drop 6 s = s"
proof -
  assume "length s = 8"
  have "take 2 (drop 4 s) @ drop 6 s = drop 4 s"
    using append_take_drop_id [of 2 "drop 4 s"] by simp
  then show ?thesis by simp
qed

lemma DCM_strict8:
  assumes "allDigits s" "length s = 8"
  shows "Date_DCM (dateOf (take 4 s) (take 2 (drop 4 s)) (drop 6 s)) = s"
proof -
  have y: "digitGroup 4 (atoi (take 4 s)) = take 4 s"
    using assms by (intro digitGroup_4 allDigits_take) simp_all
  have m: "digitGroup 2 (atoi (take 2 (drop 4 s))) = take 2 (drop 4 s)"
    using assms by (intro digitGroup_2 allDigits_take allDigits_drop) simp_all
  have d: "digitGroup 2 (atoi (drop 6 s)) = drop 6 s"
    using assms by (intro digitGroup_2 allDigits_drop) simp_all
  have ne: "take 2 (drop 4 s) \<noteq> []" "drop 6 s \<noteq> []"
    using assms by auto
  show ?thesis
    using split8 [OF assms(2)] ne
    by (simp add: Date_DCM_def dateOf_def y m d)
qed

lemma DCM_strict6:
  assumes "allDigits s" "length s = 6"
  shows "Date_DCM (dateOf (take 4 s) (drop 4 s) []) = s"
proof -
  have y: "digitGroup 4 (atoi (take 4 s)) = take 4 s"
    using assms by (intro digitGroup_4 allDigits_take) simp_all
  have m: "digitGroup 2 (atoi (drop 4 s)) = drop 4 s"
    using assms by (intro digitGroup_2 allDigits_drop) simp_all
  have ne: "drop 4 s \<noteq> []"
    using assms by auto
  show ?thesis
    using ne by (simp add: Date_DCM_def dateOf_def y m)
qed

lemma DCM_strict4:
  assumes "allDigits s" "length s = 4"
  shows "Date_DCM (dateOf s [] []) = s"
  using digitGroup_4 [OF assms] by (simp add: Date_DCM_def dateOf_def)

lemma ParseDate_strict_round_trip:
  assumes "isStrictDate s" and "ParseDate s allowNema = Inr da"
  shows "Date_DCM da = s"
  using assms DCM_strict8 [of s] DCM_strict6 [of s] DCM_strict4 [of s]
  by (auto simp: ParseDate_def isStrictDate_def split: if_splits)

lemma ParseDate_strict_ok:
  "isStrictDate s \<Longrightarrow> \<exists>da. ParseDate s allowNema = Inr da"
  by (simp add: ParseDate_def)

text \<open>
  The cases of \<^verbatim>\<open>TestDate_DCM\<close> and \<^verbatim>\<open>TestParseDateErr\<close>, the year-only case of
  \<^verbatim>\<open>TestParseDate\<close>, and a legacy text, which serializes to its strict form.
\<close>

lemma Date_tests:
  "Date_DCM \<lparr>Time = \<lparr>Year = 1010, Month = 2, Day = 3\<rparr>, Precision = PrecisionFull\<rparr>
     = ''10100203''"
  "Date_DCM \<lparr>Time = \<lparr>Year = 1010, Month = 2, Day = 3\<rparr>, Precision = PrecisionDay\<rparr>
     = ''10100203''"
  "Date_DCM \<lparr>Time = \<lparr>Year = 1010, Month = 2, Day = 3\<rparr>, Precision = PrecisionMonth\<rparr>
     = ''101002''"
  "Date_DCM \<lparr>Time = \<lparr>Year = 1010, Month = 2, Day = 3\<rparr>, Precision = PrecisionYear\<rparr>
     = ''1010''"
  "ParseDate ''101002034'' True = Inl (ErrParseDA ''101002034'')"
  "ParseDate ''1010023'' True = Inl (ErrParseDA ''1010023'')"
  "ParseDate ''10102'' True = Inl (ErrParseDA ''10102'')"
  "ParseDate ''101'' True = Inl (ErrParseDA ''101'')"
  "ParseDate ''1010.02.03'' False = Inl (ErrParseDA ''1010.02.03'')"
  "ParseDate ''2020'' True =
     Inr \<lparr>Time = \<lparr>Year = 2020, Month = 1, Day = 1\<rparr>, Precision = PrecisionYear\<rparr>"
  "ParseDate ''2020.03.04'' True =
     Inr \<lparr>Time = \<lparr>Year = 2020, Month = 3, Day = 4\<rparr>, Precision = PrecisionFull\<rparr>"
  "Date_DCM \<lparr>Time = \<lparr>Year = 2020, Month = 3, Day = 4\<rparr>, Precision = PrecisionFull\<rparr>
     = ''20200304''"
  by code_simp+

text \<open>
  Claim C5. For every valid strict date text, of exactly 4, 6 or 8 digits,
  \<open>ParseDate\<close> without the legacy flag succeeds, and serializing the resulting Date
  gives back exactly the text. Serializing any Date emits the digit groups of its
  precision, 4, 6 or 8 digits, and nothing else: it never emits a dot.
\<close>

theorem ParseDate_DCM_round_trip:
  "(isValidStrictDate s \<longrightarrow>
      (\<exists>da. ParseDate s False = Inr da \<and> Date_DCM da = s)) \<and>
   length (Date_DCM d) =
     (case Precision d of PrecisionYear \<Rightarrow> 4 | PrecisionMonth \<Rightarrow> 6
      | PrecisionDay \<Rightarrow> 8 | PrecisionFull \<Rightarrow> 8) \<and>
   allDigits (Date_DCM d) \<and>
   CHR ''.'' \<notin> set (Date_DCM d)"
proof (intro conjI impI)
  assume "isValidStrictDate s"
  then have strict: "isStrictDate s"
    by (simp add: isValidStrictDate_def)
  then obtain da where p: "ParseDate s False = Inr da"
    using ParseDate_strict_ok by blast
  with ParseDate_strict_round_trip [OF strict p]
  show "\<exists>da. ParseDate s False = Inr da \<and> Date_DCM da = s"
    by blast
next
  show "length (Date_DCM d) =
     (case Precision d of PrecisionYear \<Rightarrow> 4 | PrecisionMonth \<Rightarrow> 6
      | PrecisionDay \<Rightarrow> 8 | PrecisionFull \<Rightarrow> 8)"
    by (rule length_Date_DCM)
  show "allDigits (Date_DCM d)" by (rule allDigits_Date_DCM)
  show "CHR ''.'' \<notin> set (Date_DCM d)" by (rule Date_DCM_no_dot)
qed

theorem ParseDate_DCM_round_trip_witness:
  "isValidStrictDate ''20200229'' \<and>
   ParseDate ''20200229'' False =
     Inr \<lparr>Time = \<lparr>Year = 2020, Month = 2, Day = 29\<rparr>, Precision = PrecisionFull\<rparr> \<and>
   Date_DCM \<lparr>Time = \<lparr>Year = 2020, Month = 2, Day = 29\<rparr>, Precision = PrecisionFull\<rparr>
     = ''20200229'' \<and>
   CHR ''.'' \<notin>
     set (Date_DCM \<lparr>Time = \<lparr>Year = 2020, Month = 2, Day = 29\<rparr>,
                    Precision = PrecisionFull\<rparr>)"
proof -
  have s: "isValidStrictDate ''20200229''" by code_simp
  have p: "ParseDate ''20200229'' False =
     Inr \<lparr>Time = \<lparr>Year = 2020, Month = 2, Day = 29\<rparr>, Precision = PrecisionFull\<rparr>"
    by code_simp
  from ParseDate_DCM_round_trip
    [of "''20200229''"
        "\<lparr>Time = \<lparr>Year = 2020, Month = 2, Day = 29\<rparr>, Precision = PrecisionFull\<rparr>"]
    s p
  show ?thesis by auto
qed

text \<open>
  Claim C6. \<open>ParseDate\<close> of \<open>202003\<close> without the legacy flag succeeds with
  precision MONTH and the calendar value year 2020, month 3, day 1, which serializes
  to \<open>202003\<close>; \<open>ParseDate\<close> of \<open>2020.03\<close> with the flag gives the same calendar
  value and the same precision; without the flag it fails with the date parse error.
\<close>

theorem ParseDate_202003:
  "ParseDate ''202003'' False =
     Inr \<lparr>Time = \<lparr>Year = 2020, Month = 3, Day = 1\<rparr>, Precision = PrecisionMonth\<rparr> \<and>
   Date_DCM \<lparr>Time = \<lparr>Year = 2020, Month = 3, Day = 1\<rparr>, Precision = PrecisionMonth\<rparr>
     = ''202003'' \<and>
   ParseDate ''2020.03'' True =
     Inr \<lparr>Time = \<lparr>Year = 2020, Month = 3, Day = 1\<rparr>, Precision = PrecisionMonth\<rparr> \<and>
   ParseDate ''2020.03'' False = Inl (ErrParseDA ''2020.03'')"
  by (intro conjI; code_simp)

section \<open>Properties of the element value decoder\<close>

subsection \<open>The single-value rule\<close>

lemma first_single: "length xs = 1 \<Longrightarrow> first xs = Inr (xs ! 0)"
  by (cases xs) (simp_all add: first_def)

lemma checkSingleValue_rule:
  assumes "r = (case checkSingleValue deps element (length xs) checkSpec of
                  Some err \<Rightarrow> Inl err
                | None \<Rightarrow> first xs)"
  shows "spec_singleValueRule deps element checkSpec xs r"
  unfolding spec_singleValueRule_def assms
  by (auto simp: checkSingleValue_def Let_def first_single split: option.splits if_splits)

text \<open>
  Claim C1. For each of the six single-value methods, whenever its plural method
  gives a list, the result obeys the single-value rule: a count other than 1 is the
  multiple-values error carrying the count; one value with the spec check asked for,
  a tag that is not private and a dictionary entry whose VM is not single is the
  multiplicity error carrying the raw VM string; one value with no check asked for,
  or a private tag, or no dictionary entry, or a single VM, is the sole value.
\<close>

theorem single_value_rule:
  "(ToStrings element = Inr strings \<longrightarrow>
      spec_singleValueRule deps element checkSpec strings (ToString deps element checkSpec)) \<and>
   (ToInts element = Inr ints \<longrightarrow>
      spec_singleValueRule deps element checkSpec ints (ToInt deps element checkSpec)) \<and>
   (ToPersonNames element = Inr names \<longrightarrow>
      spec_singleValueRule deps element checkSpec names
        (ToPersonName deps element checkSpec)) \<and>
   (ToDates deps element allowNema = Inr dates \<longrightarrow>
      spec_singleValueRule deps element checkSpec dates
        (ToDate deps element checkSpec allowNema)) \<and>
   (ToTimes deps element = Inr timeVals \<longrightarrow>
      spec_singleValueRule deps element checkSpec timeVals
        (ToTime deps element checkSpec)) \<and>
   (ToDatetimes deps element = Inr datetimes \<longrightarrow>
      spec_singleValueRule deps element checkSpec datetimes
        (ToDatetime deps element checkSpec))"
proof (intro conjI impI)
  assume "ToStrings element = Inr strings"
  then show "spec_singleValueRule deps element checkSpec strings
      (ToString deps element checkSpec)"
    by (intro checkSingleValue_rule) (simp add: ToString_def)
next
  assume "ToInts element = Inr ints"
  then show "spec_singleValueRule deps element checkSpec ints (ToInt deps element checkSpec)"
    by (intro checkSingleValue_rule) (simp add: ToInt_def)
next
  assume "ToPersonNames element = Inr names"
  then show "spec_singleValueRule deps element checkSpec names
      (ToPersonName deps element checkSpec)"
    by (intro checkSingleValue_rule) (simp add: ToPersonName_def)
next
  assume "ToDates deps element allowNema = Inr dates"
  then show "spec_singleValueRule deps element checkSpec dates
      (ToDate deps element checkSpec allowNema)"
    by (intro checkSingleValue_rule) (simp add: ToDate_def)
next
  assume "ToTimes deps element = Inr timeVals"
  then show "spec_singleValueRule deps element checkSpec timeVals
      (ToTime deps element checkSpec)"
    by (intro checkSingleValue_rule) (simp add: ToTime_def)
next
  assume "ToDatetimes deps element = Inr datetimes"
  then show "spec_singleValueRule deps element checkSpec datetimes
      (ToDatetime deps element checkSpec)"
    by (intro checkSingleValue_rule) (simp add: ToDatetime_def)
qed

lemma oneEntry_find:
  "tag_Find oneEntryDeps tag0028_0030 =
     Some \<lparr>Info_Tag = tag0028_0030, Info_Name = ''PixelSpacing'', Info_VR = ''DS'',
           VM = ''2'', VMInfo = (2, 2)\<rparr>"
  by (simp add: oneEntryDeps_def)

lemma tag0028_not_private: "\<not> IsPrivate (Group tag0028_0030)"
  by (simp add: IsPrivate_def tag0028_0030_def)

theorem single_value_rule_witness:
  "ToStrings \<lparr>Tag = tag0028_0030, RawValueRepresentation = ''DS'', Value = Strings [''0.5'']\<rparr>
     = Inr [''0.5''] \<and>
   ToString oneEntryDeps
     \<lparr>Tag = tag0028_0030, RawValueRepresentation = ''DS'', Value = Strings [''0.5'']\<rparr> True
     = Inl (ErrDicomSpecNotSingle ''2'') \<and>
   ToString oneEntryDeps
     \<lparr>Tag = tag0028_0030, RawValueRepresentation = ''DS'', Value = Strings [''0.5'']\<rparr> False
     = Inr ''0.5'' \<and>
   ToStrings
     \<lparr>Tag = tag0028_0030, RawValueRepresentation = ''DS'',
      Value = Strings [''0.5'', ''0.5'']\<rparr> = Inr [''0.5'', ''0.5''] \<and>
   ToString oneEntryDeps
     \<lparr>Tag = tag0028_0030, RawValueRepresentation = ''DS'',
      Value = Strings [''0.5'', ''0.5'']\<rparr> False
     = Inl (ErrMultipleValuesFound 2)"
proof -
  let ?e1 = "\<lparr>Tag = tag0028_0030, RawValueRepresentation = ''DS'', Value = Strings [''0.5'']\<rparr>"
  let ?e2 = "\<lparr>Tag = tag0028_0030, RawValueRepresentation = ''DS'',
              Value = Strings [''0.5'', ''0.5'']\<rparr>"
  have s1: "ToStrings ?e1 = Inr [''0.5'']" and s2: "ToStrings ?e2 = Inr [''0.5'', ''0.5'']"
    by (simp_all add: ToStrings_def)
  have single: "\<not> IsSingleValue oneEntryDeps (2, 2)"
    by (simp add: oneEntryDeps_def)
  from single_value_rule [of ?e1 "[''0.5'']" oneEntryDeps True] s1
  have "spec_singleValueRule oneEntryDeps ?e1 True [''0.5''] (ToString oneEntryDeps ?e1 True)"
    by blast
  then have a: "ToString oneEntryDeps ?e1 True = Inl (ErrDicomSpecNotSingle ''2'')"
    using oneEntry_find tag0028_not_private single
    by (simp add: spec_singleValueRule_def)
  from single_value_rule [of ?e1 "[''0.5'']" oneEntryDeps False] s1
  have "spec_singleValueRule oneEntryDeps ?e1 False [''0.5''] (ToString oneEntryDeps ?e1 False)"
    by blast
  then have b: "ToString oneEntryDeps ?e1 False = Inr ''0.5''"
    by (simp add: spec_singleValueRule_def)
  from single_value_rule [of ?e2 "[''0.5'', ''0.5'']" oneEntryDeps False] s2
  have "spec_singleValueRule oneEntryDeps ?e2 False [''0.5'', ''0.5'']
          (ToString oneEntryDeps ?e2 False)"
    by blast
  then have c: "ToString oneEntryDeps ?e2 False = Inl (ErrMultipleValuesFound 2)"
    by (simp add: spec_singleValueRule_def)
  from s1 s2 a b c show ?thesis by simp
qed

subsection \<open>The VR check\<close>

text \<open>
  Under a VR mismatch each plural method of a semantic type returns its VR error at
  once, whatever the payload is: no string is parsed. The error of \<open>ToDates\<close>
  carries \<open>vrraw_PersonName\<close> as the expected code, and every one of the four carries
  the type of \<^verbatim>\<open>personname.Info{}\<close> as the target.
\<close>

lemma wrong_VR_before_parsing:
  "RawValueRepresentation element \<noteq> vrraw_PersonName \<Longrightarrow>
     ToPersonNames element =
       Inl (ErrWrongValueRepresentation T_personname_Info vrraw_PersonName
              (RawValueRepresentation element))"
  "RawValueRepresentation element \<noteq> vrraw_Date \<Longrightarrow>
     ToDates deps element allowNema =
       Inl (ErrWrongValueRepresentation T_personname_Info vrraw_PersonName
              (RawValueRepresentation element))"
  "RawValueRepresentation element \<noteq> vrraw_Time \<Longrightarrow>
     ToTimes deps element =
       Inl (ErrWrongValueRepresentation T_personname_Info vrraw_Time
              (RawValueRepresentation element))"
  "RawValueRepresentation element \<noteq> vrraw_DateTime \<Longrightarrow>
     ToDatetimes deps element =
       Inl (ErrWrongValueRepresentation T_personname_Info vrraw_DateTime
              (RawValueRepresentation element))"
  by (auto simp: ToPersonNames_def ToDates_def ToTimes_def ToDatetimes_def checkVR_def)

text \<open>
  Claim C2, at a failing input. An element whose declared VR is \<open>TM\<close> is asked for
  its dates, for which the expected code is \<open>DA\<close>. The error that \<open>ToDates\<close> and
  \<open>ToDate\<close> return is the wrong-VR error, and it carries the observed code \<open>TM\<close>;
  but the expected code it carries is \<open>PN\<close>, and the target type it carries is the
  one of person names.
\<close>

theorem ToDates_wrong_VR_names_PN:
  "ToDates deps
     \<lparr>Tag = \<lparr>Group = 0x0008, Element = 0x0020\<rparr>, RawValueRepresentation = ''TM'',
      Value = Strings [''20200304'']\<rparr> allowNema =
     Inl (ErrWrongValueRepresentation T_personname_Info ''PN'' ''TM'') \<and>
   ToDate deps
     \<lparr>Tag = \<lparr>Group = 0x0008, Element = 0x0020\<rparr>, RawValueRepresentation = ''TM'',
      Value = Strings [''20200304'']\<rparr> checkSpec allowNema =
     Inl (ErrWrongValueRepresentation T_personname_Info ''PN'' ''TM'') \<and>
   vrraw_Date = ''DA''"
  by (simp add: ToDate_def ToDates_def checkVR_def vrraw_Date_def vrraw_PersonName_def)

subsection \<open>The facade\<close>

text \<open>
  Claim C9. Each of the thirteen methods of the facade is determined by the result of
  the fallible method of the same name and parameters: where that one succeeds with a
  value the facade returns this value, and where it fails with an error the facade
  panics with this error.
\<close>

theorem facade_rule:
  "spec_facade (ToBytes element) (Must_ToBytes element) \<and>
   spec_facade (ToStrings element) (Must_ToStrings element) \<and>
   spec_facade (ToString deps element checkSpec) (Must_ToString deps element checkSpec) \<and>
   spec_facade (ToInts element) (Must_ToInts element) \<and>
   spec_facade (ToInt deps element checkSpec) (Must_ToInt deps element checkSpec) \<and>
   spec_facade (ToPersonNames element) (Must_ToPersonNames element) \<and>
   spec_facade (ToPersonName deps element checkSpec)
     (Must_ToPersonName deps element checkSpec) \<and>
   spec_facade (ToDates deps element allowNema) (Must_ToDates deps element allowNema) \<and>
   spec_facade (ToDate deps element checkSpec allowNema)
     (Must_ToDate deps element checkSpec allowNema) \<and>
   spec_facade (ToTimes deps element) (Must_ToTimes deps element) \<and>
   spec_facade (ToTime deps element checkSpec) (Must_ToTime deps element checkSpec) \<and>
   spec_facade (ToDatetimes deps element) (Must_ToDatetimes deps element) \<and>
   spec_facade (ToDatetime deps element checkSpec) (Must_ToDatetime deps element checkSpec)"
proof (intro conjI)
  show "spec_facade (ToBytes element) (Must_ToBytes element)"
    by (simp add: spec_facade_def Must_ToBytes_def)
  show "spec_facade (ToStrings element) (Must_ToStrings element)"
    by (simp add: spec_facade_def Must_ToStrings_def)
  show "spec_facade (ToString deps element checkSpec) (Must_ToString deps element checkSpec)"
    by (simp add: spec_facade_def Must_ToString_def)
  show "spec_facade (ToInts element) (Must_ToInts element)"
    by (simp add: spec_facade_def Must_ToInts_def)
  show "spec_facade (ToInt deps element checkSpec) (Must_ToInt deps element checkSpec)"
    by (simp add: spec_facade_def Must_ToInt_def)
  show "spec_facade (ToPersonNames element) (Must_ToPersonNames element)"
    by (simp add: spec_facade_def Must_ToPersonNames_def)
  show "spec_facade (ToPersonName deps element checkSpec)
     (Must_ToPersonName deps element checkSpec)"
    by (simp add: spec_facade_def Must_ToPersonName_def)
  show "spec_facade (ToDates deps element allowNema) (Must_ToDates deps element allowNema)"
    by (simp add: spec_facade_def Must_ToDates_def)
  show "spec_facade (ToDate deps element checkSpec allowNema)
     (Must_ToDate deps element checkSpec allowNema)"
    by (simp add: spec_facade_def Must_ToDate_def)
  show "spec_facade (ToTimes deps element) (Must_ToTimes deps element)"
    by (simp add: spec_facade_def Must_ToTimes_def)
  show "spec_facade (ToTime deps element checkSpec) (Must_ToTime deps element checkSpec)"
    by (simp add: spec_facade_def Must_ToTime_def)
  show "spec_facade (ToDatetimes deps element) (Must_ToDatetimes deps element)"
    by (simp add: spec_facade_def Must_ToDatetimes_def)
  show "spec_facade (ToDatetime deps element checkSpec) (Must_ToDatetime deps element checkSpec)"
    by (simp add: spec_facade_def Must_ToDatetime_def)
qed

theorem facade_rule_witness:
  "ToStrings \<lparr>Tag = tag0028_0030, RawValueRepresentation = ''DS'', Value = Strings [''0.5'']\<rparr>
     = Inr [''0.5''] \<and>
   Must_ToStrings
     \<lparr>Tag = tag0028_0030, RawValueRepresentation = ''DS'', Value = Strings [''0.5'']\<rparr>
     = Returns [''0.5''] \<and>
   ToBytes \<lparr>Tag = tag0028_0030, RawValueRepresentation = ''DS'', Value = Strings [''0.5'']\<rparr>
     = Inl (ErrConvertTypeValue T_bytes T_strings) \<and>
   Must_ToBytes
     \<lparr>Tag = tag0028_0030, RawValueRepresentation = ''DS'', Value = Strings [''0.5'']\<rparr>
     = Panics (ErrConvertTypeValue T_bytes T_strings) \<and>
   ToString oneEntryDeps
     \<lparr>Tag = tag0028_0030, RawValueRepresentation = ''DS'', Value = Strings [''0.5'']\<rparr> True
     = Inl (ErrDicomSpecNotSingle ''2'') \<and>
   Must_ToString oneEntryDeps
     \<lparr>Tag = tag0028_0030, RawValueRepresentation = ''DS'', Value = Strings [''0.5'']\<rparr> True
     = Panics (ErrDicomSpecNotSingle ''2'')"
proof -
  let ?e = "\<lparr>Tag = tag0028_0030, RawValueRepresentation = ''DS'', Value = Strings [''0.5'']\<rparr>"
  have s: "ToStrings ?e = Inr [''0.5'']"
    by (simp add: ToStrings_def)
  have b: "ToBytes ?e = Inl (ErrConvertTypeValue T_bytes T_strings)"
    by (simp add: ToBytes_def)
  have t: "ToString oneEntryDeps ?e True = Inl (ErrDicomSpecNotSingle ''2'')"
    using s oneEntry_find tag0028_not_private
    by (simp add: ToString_def checkSingleValue_def oneEntryDeps_def)
  from facade_rule [of ?e oneEntryDeps True False] s b t show ?thesis
    by (simp add: spec_facade_def)
qed

end
